theory Spec2Isabelle
  imports Complex_Main
begin

section \<open>The shot quality loop of the validation phase\<close>

text \<open>
  This theory embeds the validation phase of the image pipeline: the functions
  \<open>validateImage\<close> and \<open>refinePrompt\<close> of \<open>utils/vision-validator.js\<close> and the
  functions \<open>editImage\<close>, \<open>getShotFolders\<close>, \<open>getAnchorPath\<close>, \<open>validateShot\<close>,
  \<open>validateExercise\<close>, \<open>generateValidationSummary\<close> and \<open>main\<close> of the validation
  script. The remote services (vision model, text model, image editor, download) are
  sequences of replies, one per pass of the loop, over which every theorem quantifies.
  An exception is the \<open>Inl\<close> branch of a sum; a message is the string the source builds.

  What is not modelled: console output, the rate-limit sleeps, time stamps, the
  request texts sent to the services (the replies are arbitrary, so nothing depends on
  them), the narration context looked up in \<open>script.json\<close> (it only feeds the judge's
  request) and the in-memory cache of anchor data URLs. Scores are rationals.

  The functions are given twice. First on well-formed inputs: a reply of the judge that
  parses as JSON has the fields of a validation result (with \<open>issues\<close> and
  \<open>suggestions\<close> optional), the persisted counter is a natural number, and the local
  writes of \<open>validation.json\<close> and \<open>prompt.json\<close> succeed; on these inputs
  \<open>validateShot\<close> always returns an outcome. Then, with the suffix \<open>_js\<close>, without
  these assumptions, where an exception can leave \<open>validateShot\<close>.
\<close>

subsection \<open>Configuration\<close>

record config =
  rateLimit :: nat
  maxIterations :: nat

definition CONFIG :: config where
  "CONFIG = \<lparr>rateLimit = 500, maxIterations = 2\<rparr>"

subsection \<open>Validation results\<close>

text \<open>
  The object returned by \<open>validateImage\<close>. The fields \<open>issues\<close> and \<open>suggestions\<close>
  are optional, as the loop reads them with \<open>?.\<close> and \<open>|| []\<close>.
\<close>

record validation_result =
  success :: bool
  overall_pass :: bool
  confidence :: rat
  criteria_scores :: "(string \<times> rat) list"
  issues :: "string list option"
  suggestions :: "string list option"
  error :: "string option"

datatype shot_status = Approved | Flagged | Rejected | No_image | Error

text \<open>
  The content of \<open>validation.json\<close>: the validation result spread into an object
  together with \<open>iteration\<close>, \<open>prompt_used\<close> and, for the flagged and the error case, a
  \<open>status\<close> (here \<open>saved_status\<close>, since the returned outcome has a \<open>status\<close> too).
\<close>

record validation_data = validation_result +
  iteration :: nat
  prompt_used :: string
  saved_status :: "shot_status option"

definition spread ::
  "validation_result \<Rightarrow> nat \<Rightarrow> string \<Rightarrow> shot_status option \<Rightarrow> string option \<Rightarrow> validation_data" where
  "spread r i p s e =
     \<lparr>success = success r, overall_pass = overall_pass r, confidence = confidence r,
      criteria_scores = criteria_scores r, issues = issues r, suggestions = suggestions r,
      error = e, iteration = i, prompt_used = p, saved_status = s\<rparr>"

subsection \<open>The vision judge: \<open>validateImage\<close>\<close>

text \<open>
  What the model call yields: it throws, its answer has no text part, the text is not
  JSON (\<open>JSON.parse\<close> throws a \<open>SyntaxError\<close> with the given message), or the text
  parses to an object of the requested format.
\<close>

datatype judge_json =
  JudgeJson (j_overall_pass: bool) (j_confidence: rat) (j_criteria_scores: "(string \<times> rat) list")
            (j_issues: "string list option") (j_suggestions: "string list option")

datatype judge_reply = JudgeThrows string | JudgeNoText | JudgeUnparseable string | JudgeParsed judge_json

definition parse_failure :: "string \<Rightarrow> validation_result" where
  "parse_failure msg =
     \<lparr>success = False, overall_pass = False, confidence = 0,
      criteria_scores = [(''character_consistency'', 0), (''pose_accuracy'', 0),
        (''muscle_highlighting'', 0), (''matches_tts_context'', 0), (''no_hallucinations'', 0)],
      issues = Some [''Failed to parse validation response''],
      suggestions = Some [''Retry validation''],
      error = Some msg\<rparr>"

text \<open>
  \<open>config_error\<close> is the exception of \<open>loadPromptsConfig\<close>, if it has one; the
  configuration file is read before the \<open>try\<close> block, so its failure is thrown on.
  Inside the \<open>try\<close> block only a \<open>SyntaxError\<close> is turned into a result.
\<close>

definition validateImage :: "string option \<Rightarrow> judge_reply \<Rightarrow> string + validation_result" where
  "validateImage config_error reply =
     (case config_error of
        Some msg \<Rightarrow> Inl msg
      | None \<Rightarrow>
         (case reply of
            JudgeThrows msg \<Rightarrow> Inl msg
          | JudgeNoText \<Rightarrow> Inl ''No text response from Claude''
          | JudgeUnparseable msg \<Rightarrow> Inr (parse_failure msg)
          | JudgeParsed j \<Rightarrow>
              Inr \<lparr>success = True, overall_pass = j_overall_pass j, confidence = j_confidence j,
                   criteria_scores = j_criteria_scores j, issues = j_issues j,
                   suggestions = j_suggestions j, error = None\<rparr>))"

subsection \<open>The prompt refiner: \<open>refinePrompt\<close>\<close>

datatype refine_reply = RefineThrows string | RefineNoText | RefineText string

definition is_space :: "char \<Rightarrow> bool" where
  "is_space c = (c \<in> set [CHR '' '', CHR 0x09, CHR 0x0A, CHR 0x0B, CHR 0x0C, CHR 0x0D])"

definition trim :: "string \<Rightarrow> string" where
  "trim s = rev (dropWhile is_space (rev (dropWhile is_space s)))"

text \<open>
  The two lowest scoring criteria are computed before the \<open>try\<close> block and go into the
  request only, so the issues, the suggestions and the scores do not reach the result.
  The call and the extraction of its text are inside the \<open>try\<close> block, whose handler
  returns the original prompt. \<open>trim\<close> removes the ASCII white space at both ends.
\<close>

definition refinePrompt ::
  "string option \<Rightarrow> string \<Rightarrow> string list \<Rightarrow> string list \<Rightarrow> (string \<times> rat) list \<Rightarrow> refine_reply
     \<Rightarrow> string + string" where
  "refinePrompt config_error originalPrompt issues_arg suggestions_arg criteriaScores reply =
     (case config_error of
        Some msg \<Rightarrow> Inl msg
      | None \<Rightarrow>
         (case reply of
            RefineThrows msg \<Rightarrow> Inr originalPrompt
          | RefineNoText \<Rightarrow> Inr originalPrompt
          | RefineText t \<Rightarrow> Inr (trim t)))"

subsection \<open>The image generator: \<open>editImage\<close>\<close>

datatype edit_reply =
  EditThrows string
| EditResult (data_images: "string list option") (images: "string list option")

fun editImage :: "edit_reply \<Rightarrow> string + string" where
  "editImage (EditThrows msg) = Inl msg"
| "editImage (EditResult (Some (url # _)) _) = Inr url"
| "editImage (EditResult _ (Some (url # _))) = Inr url"
| "editImage (EditResult _ _) = Inl ''No image returned from nano-banana''"

subsection \<open>Shots on disk\<close>

datatype history_entry =
  HistoryEntry (h_iteration: nat) (h_prompt: string) (h_issues: "string list option")

text \<open>
  The fields of \<open>prompt.json\<close> that the loop reads or writes. The iteration counter is
  a count that only this loop writes (as \<open>iteration + 1\<close>), so it is a natural number;
  it and the history may be absent.
\<close>

record prompt_data =
  anchor_image :: string
  engineered_prompt :: string
  validation_iteration :: "nat option"
  prompt_history :: "history_entry list option"

datatype prompt_file = NoPromptFile | BadPromptFile string | PromptFile prompt_data

text \<open>
  One entry of an exercise's \<open>shots\<close> directory with the files in it, and the replies
  the services give while this shot is processed: the reply to the call made in pass
  \<open>k\<close> of the loop (counted from 0) is the \<open>k\<close>-th of its sequence.
\<close>

record shot_env =
  shot_id :: string
  is_directory :: bool
  prompt_json :: prompt_file
  image_png :: "string option"
  validation_json :: "validation_data option"
  judge :: "nat \<Rightarrow> judge_reply"
  refiner :: "nat \<Rightarrow> refine_reply"
  editor :: "nat \<Rightarrow> edit_reply"
  downloader :: "nat \<Rightarrow> string + string"

record exercise_env =
  ex_name :: string
  ex_is_directory :: bool
  shots_dir :: "shot_env list option"

text \<open>What is shared by all shots: the environment and the directories outside the shot folders.\<close>

record world =
  fal_key :: bool
  anthropic_key :: bool
  config_error :: "string option"
  anchor_abs :: "string \<Rightarrow> string"
  accessible :: "string \<Rightarrow> bool"
  localeCompare :: "string \<Rightarrow> string \<Rightarrow> int"
  videoScriptsDir :: string
  video_scripts :: "exercise_env list option"

definition getAnchorPath :: "world \<Rightarrow> string \<Rightarrow> string + string" where
  "getAnchorPath w anchorRelativePath =
     (let absolutePath = anchor_abs w anchorRelativePath in
      if accessible w absolutePath then Inr absolutePath
      else Inl (''Anchor image not found: '' @ absolutePath))"

definition getAnchorDataUrl :: "world \<Rightarrow> string \<Rightarrow> string + string" where
  "getAnchorDataUrl w anchorRelativePath =
     (case getAnchorPath w anchorRelativePath of
        Inl msg \<Rightarrow> Inl msg
      | Inr absolutePath \<Rightarrow> Inr (''data:image/png;base64,'' @ absolutePath))"

subsection \<open>The loop of \<open>validateShot\<close>\<close>

text \<open>
  The trace of a run. \<open>Validating i d\<close> marks the head of a pass, with the local
  iteration counter and the prompt record as it is then; the other events are the calls
  to the services and the writes of the two JSON files.
\<close>

datatype event =
  Validating nat prompt_data
| JudgeCall string
| RefineCall string
| GenerateCall string
| DownloadCall string
| SavePrompt prompt_data
| WriteValidation validation_data

record shot_result =
  status :: shot_status
  message :: "string option"
  validation :: "validation_data option"

text \<open>The local variables of the loop, the files it writes and the trace so far.\<close>

record loop_state =
  st_iteration :: nat
  st_currentPrompt :: string
  st_promptData :: prompt_data
  st_image :: string
  st_validation :: "validation_data option"
  st_pass :: nat
  st_events :: "event list"

datatype pass_result = Continue loop_state | Return shot_result loop_state

definition or_empty :: "'a list option \<Rightarrow> 'a list" where
  "or_empty xs = (case xs of None \<Rightarrow> [] | Some ys \<Rightarrow> ys)"

definition regen_failed :: "loop_state \<Rightarrow> validation_result \<Rightarrow> event list \<Rightarrow> string \<Rightarrow> pass_result" where
  "regen_failed st validationResult evs msg =
     (let validationData =
            spread validationResult (st_iteration st) (st_currentPrompt st) (Some Error) (Some msg)
      in Return \<lparr>status = Error, message = Some msg, validation = Some validationData\<rparr>
           (st\<lparr>st_validation := Some validationData,
               st_events := evs @ [WriteValidation validationData]\<rparr>))"

text \<open>
  The \<open>try\<close> block that refines the prompt and regenerates the image; \<open>regen_failed\<close>
  is its \<open>catch\<close> handler.
\<close>

definition regenerate :: "world \<Rightarrow> shot_env \<Rightarrow> loop_state \<Rightarrow> validation_result \<Rightarrow> pass_result" where
  "regenerate w env st validationResult =
     (let iteration_v = st_iteration st;
          currentPrompt = st_currentPrompt st;
          promptData = st_promptData st;
          k = st_pass st;
          ev1 = st_events st @ [RefineCall currentPrompt]
      in case refinePrompt (config_error w) currentPrompt (or_empty (issues validationResult))
                (or_empty (suggestions validationResult)) (criteria_scores validationResult)
                (refiner env k) of
           Inl msg \<Rightarrow> regen_failed st validationResult ev1 msg
         | Inr refinedPrompt \<Rightarrow>
            (case getAnchorDataUrl w (anchor_image promptData) of
               Inl msg \<Rightarrow> regen_failed st validationResult ev1 msg
             | Inr anchorDataUrl \<Rightarrow>
                (let ev2 = ev1 @ [GenerateCall refinedPrompt] in
                 case editImage (editor env k) of
                   Inl msg \<Rightarrow> regen_failed st validationResult ev2 msg
                 | Inr newImageUrl \<Rightarrow>
                    (let ev3 = ev2 @ [DownloadCall newImageUrl] in
                     case downloader env k of
                       Inl msg \<Rightarrow> regen_failed st validationResult ev3 msg
                     | Inr newImage \<Rightarrow>
                        (let promptData' = promptData
                               \<lparr>engineered_prompt := refinedPrompt,
                                validation_iteration := Some (iteration_v + 1),
                                prompt_history := Some (or_empty (prompt_history promptData) @
                                  [HistoryEntry iteration_v currentPrompt (issues validationResult)])\<rparr>
                         in Continue (st\<lparr>st_image := newImage,
                                         st_promptData := promptData',
                                         st_currentPrompt := refinedPrompt,
                                         st_iteration := iteration_v + 1,
                                         st_pass := k + 1,
                                         st_events := ev3 @ [SavePrompt promptData']\<rparr>))))))"

text \<open>One pass through the body of the \<open>while\<close> loop.\<close>

definition loop_pass :: "config \<Rightarrow> world \<Rightarrow> shot_env \<Rightarrow> bool \<Rightarrow> loop_state \<Rightarrow> pass_result" where
  "loop_pass cfg w env skipRegen st =
     (let iteration_v = st_iteration st;
          currentPrompt = st_currentPrompt st;
          st1 = st\<lparr>st_events := st_events st @
                  [Validating iteration_v (st_promptData st), JudgeCall currentPrompt]\<rparr>
      in case validateImage (config_error w) (judge env (st_pass st)) of
           Inl msg \<Rightarrow>
             Return \<lparr>status = Error, message = Some (''Validation failed: '' @ msg),
                     validation = None\<rparr> st1
         | Inr validationResult \<Rightarrow>
             if overall_pass validationResult then
               (let validationData =
                      spread validationResult iteration_v currentPrompt None (error validationResult)
                in Return \<lparr>status = Approved, message = None, validation = Some validationData\<rparr>
                     (st1\<lparr>st_validation := Some validationData,
                          st_events := st_events st1 @ [WriteValidation validationData]\<rparr>))
             else if skipRegen \<or> iteration_v \<ge> maxIterations cfg then
               (let validationData =
                      spread validationResult iteration_v currentPrompt (Some Flagged)
                        (error validationResult)
                in Return \<lparr>status = Flagged, message = None, validation = Some validationData\<rparr>
                     (st1\<lparr>st_validation := Some validationData,
                          st_events := st_events st1 @ [WriteValidation validationData]\<rparr>))
             else regenerate w env st1 validationResult)"

text \<open>
  The \<open>while\<close> loop. A pass that does not return has incremented the counter, which
  is what bounds the loop.
\<close>

function validate_loop ::
  "config \<Rightarrow> world \<Rightarrow> shot_env \<Rightarrow> bool \<Rightarrow> loop_state \<Rightarrow> shot_result \<times> loop_state" where
  "validate_loop cfg w env skipRegen st =
     (if st_iteration st \<le> maxIterations cfg then
        (case loop_pass cfg w env skipRegen st of
           Return r st' \<Rightarrow> (r, st')
         | Continue st' \<Rightarrow> validate_loop cfg w env skipRegen st')
      else (\<lparr>status = Error, message = Some ''Unexpected end of validation loop'',
             validation = None\<rparr>, st))"
  by pat_completeness auto
termination
  by (relation "measure (\<lambda>(cfg, w, env, skipRegen, st). maxIterations cfg + 1 - st_iteration st)")
     (auto simp: loop_pass_def regenerate_def regen_failed_def Let_def
           split: sum.splits if_splits)

declare validate_loop.simps [simp del]

subsection \<open>\<open>validateShot\<close>\<close>

text \<open>The outcome of a shot, the shot folder after the run, and the trace.\<close>

record shot_run =
  result :: shot_result
  after :: shot_env
  events :: "event list"

text \<open>
  The state in which the loop is entered: \<open>iteration\<close> is
  \<open>promptData.validation_iteration || 0\<close> and \<open>currentPrompt\<close> is the record's prompt.
\<close>

definition initial_state :: "shot_env \<Rightarrow> prompt_data \<Rightarrow> string \<Rightarrow> loop_state" where
  "initial_state shot promptData img =
     \<lparr>st_iteration = (case validation_iteration promptData of None \<Rightarrow> 0 | Some n \<Rightarrow> n),
      st_currentPrompt = engineered_prompt promptData,
      st_promptData = promptData,
      st_image = img,
      st_validation = validation_json shot,
      st_pass = 0,
      st_events = []\<rparr>"

definition validateShot :: "config \<Rightarrow> world \<Rightarrow> shot_env \<Rightarrow> bool \<Rightarrow> shot_run" where
  "validateShot cfg w shot skipRegen =
     (case image_png shot of
        None \<Rightarrow>
          \<lparr>result = \<lparr>status = No_image, message = Some ''No image.png found in shot folder'',
                      validation = None\<rparr>,
           after = shot, events = []\<rparr>
      | Some img \<Rightarrow>
         (case prompt_json shot of
            NoPromptFile \<Rightarrow>
              \<lparr>result = \<lparr>status = Error,
                   message = Some (''Failed to load prompt.json: '' @
                     ''ENOENT: no such file or directory''),
                   validation = None\<rparr>,
               after = shot, events = []\<rparr>
          | BadPromptFile msg \<Rightarrow>
              \<lparr>result = \<lparr>status = Error,
                   message = Some (''Failed to load prompt.json: '' @ msg),
                   validation = None\<rparr>,
               after = shot, events = []\<rparr>
          | PromptFile promptData \<Rightarrow>
             (case getAnchorPath w (anchor_image promptData) of
                Inl msg \<Rightarrow>
                  \<lparr>result = \<lparr>status = Error, message = Some msg, validation = None\<rparr>,
                   after = shot, events = []\<rparr>
              | Inr anchorPath \<Rightarrow>
                 (let (r, st) = validate_loop cfg w shot skipRegen (initial_state shot promptData img)
                  in \<lparr>result = r,
                      after = shot\<lparr>prompt_json := PromptFile (st_promptData st),
                                   image_png := Some (st_image st),
                                   validation_json := st_validation st\<rparr>,
                      events = st_events st\<rparr>))))"

subsection \<open>Scanning the shot folders\<close>

text \<open>
  \<open>Array.prototype.sort\<close> with the comparator \<open>localeCompare\<close> of the two ids, as
  a stable insertion sort; the comparator is the world's.
\<close>

fun insert_by :: "('a \<Rightarrow> 'a \<Rightarrow> int) \<Rightarrow> 'a \<Rightarrow> 'a list \<Rightarrow> 'a list" where
  "insert_by cmp x [] = [x]"
| "insert_by cmp x (y # ys) = (if cmp x y < 0 then x # y # ys else y # insert_by cmp x ys)"

definition sort_by :: "('a \<Rightarrow> 'a \<Rightarrow> int) \<Rightarrow> 'a list \<Rightarrow> 'a list" where
  "sort_by cmp xs = foldl (\<lambda>acc x. insert_by cmp x acc) [] xs"

definition getShotFolders :: "world \<Rightarrow> exercise_env \<Rightarrow> shot_env list" where
  "getShotFolders w ex =
     (case shots_dir ex of
        None \<Rightarrow> []
      | Some entries \<Rightarrow>
          sort_by (\<lambda>a b. localeCompare w (shot_id a) (shot_id b))
            (filter (\<lambda>entry. is_directory entry \<and> prompt_json entry \<noteq> NoPromptFile) entries))"

subsection \<open>\<open>generateValidationSummary\<close>\<close>

text \<open>
  The five lists of \<open>results\<close>, the five numbers of \<open>counts\<close> and the five id lists
  of \<open>shots\<close> have the same keys.
\<close>

record 'a buckets =
  approved :: 'a
  flagged :: 'a
  rejected :: 'a
  no_image :: 'a
  errors :: 'a

type_synonym result_item = "string \<times> shot_result"

record summary =
  exercise :: string
  total_shots :: nat
  counts :: "nat buckets"
  ready_for_assembly :: bool
  blocking_issues :: "(string \<times> string option list) list"
  shots :: "string list buckets"

definition flagged_issues :: "result_item list \<Rightarrow> (string \<times> string option list) list" where
  "flagged_issues items =
     concat (map (\<lambda>item.
       (case validation (snd item) of
          None \<Rightarrow> []
        | Some v \<Rightarrow> (case issues v of None \<Rightarrow> [] | Some is \<Rightarrow> [(fst item, map Some is)]))) items)"

definition generateValidationSummary :: "string \<Rightarrow> result_item list buckets \<Rightarrow> nat \<Rightarrow> summary" where
  "generateValidationSummary exerciseName results totalShots =
     (let approved_n = length (approved results);
          flagged_n = length (flagged results);
          rejected_n = length (rejected results);
          noImage = length (no_image results);
          errors_n = length (errors results);
          blockingIssues = flagged_issues (flagged results) @
             map (\<lambda>item. (fst item, [message (snd item)])) (errors results);
          readyForAssembly =
            (flagged_n = 0 \<and> rejected_n = 0 \<and> errors_n = 0 \<and> noImage = 0 \<and>
             approved_n = totalShots)
      in \<lparr>exercise = exerciseName,
          total_shots = totalShots,
          counts = \<lparr>approved = approved_n, flagged = flagged_n, rejected = rejected_n,
                    no_image = noImage, errors = errors_n\<rparr>,
          ready_for_assembly = readyForAssembly,
          blocking_issues = blockingIssues,
          shots = \<lparr>approved = map fst (approved results), flagged = map fst (flagged results),
                   rejected = map fst (rejected results), no_image = map fst (no_image results),
                   errors = map fst (errors results)\<rparr>\<rparr>)"

subsection \<open>\<open>validateExercise\<close>\<close>

text \<open>The \<open>switch\<close> on the status of a shot's result.\<close>

definition add_result :: "result_item list buckets \<Rightarrow> result_item \<Rightarrow> result_item list buckets" where
  "add_result rs item =
     (case status (snd item) of
        Approved \<Rightarrow> rs\<lparr>approved := approved rs @ [item]\<rparr>
      | Flagged \<Rightarrow> rs\<lparr>flagged := flagged rs @ [item]\<rparr>
      | Rejected \<Rightarrow> rs\<lparr>rejected := rejected rs @ [item]\<rparr>
      | No_image \<Rightarrow> rs\<lparr>no_image := no_image rs @ [item]\<rparr>
      | Error \<Rightarrow> rs\<lparr>errors := errors rs @ [item]\<rparr>)"

text \<open>The \<open>for\<close> loop over the shots; the runs are kept beside the results.\<close>

fun process_shots ::
  "config \<Rightarrow> world \<Rightarrow> bool \<Rightarrow> shot_env list \<Rightarrow> result_item list buckets \<Rightarrow> shot_run list
     \<Rightarrow> result_item list buckets \<times> shot_run list" where
  "process_shots cfg w skipRegen [] rs runs = (rs, runs)"
| "process_shots cfg w skipRegen (shot # rest) rs runs =
     (let run = validateShot cfg w shot skipRegen
      in process_shots cfg w skipRegen rest (add_result rs (shot_id shot, result run)) (runs @ [run]))"

record exercise_run =
  results :: "result_item list buckets"
  summary :: summary
  shot_runs :: "shot_run list"

definition empty_results :: "result_item list buckets" where
  "empty_results = \<lparr>approved = [], flagged = [], rejected = [], no_image = [], errors = []\<rparr>"

definition validateExercise :: "config \<Rightarrow> world \<Rightarrow> string \<Rightarrow> bool \<Rightarrow> string + exercise_run" where
  "validateExercise cfg w exerciseName skipRegen =
     (let exerciseDir = videoScriptsDir w @ ''/'' @ exerciseName in
      case find (\<lambda>e. ex_name e = exerciseName) (or_empty (video_scripts w)) of
        None \<Rightarrow> Inl (''Exercise not found: '' @ exerciseName)
      | Some ex \<Rightarrow>
         (let shot_list = getShotFolders w ex in
          if length shot_list = 0 then Inl (''No shots found in: '' @ exerciseDir @ ''/shots/'')
          else
            (let (rs, runs) = process_shots cfg w skipRegen shot_list empty_results [];
                 summary_v = generateValidationSummary exerciseName rs (length shot_list)
             in Inr \<lparr>results = rs, summary = summary_v, shot_runs = runs\<rparr>)))"

subsection \<open>\<open>main\<close>\<close>

datatype exercise_outcome =
  Succeeded (exercise_of: string) (summary_of: summary)
| Failed (exercise_of: string) (error_of: string)

fun is_success :: "exercise_outcome \<Rightarrow> bool" where
  "is_success (Succeeded _ _) = True"
| "is_success (Failed _ _) = False"

text \<open>The body of the \<open>for\<close> loop over the exercises, with its \<open>try\<close> and \<open>catch\<close>.\<close>

definition run_exercise :: "world \<Rightarrow> bool \<Rightarrow> string \<Rightarrow> exercise_outcome" where
  "run_exercise w skipRegen ex =
     (case validateExercise CONFIG w ex skipRegen of
        Inr run \<Rightarrow> Succeeded ex (summary run)
      | Inl msg \<Rightarrow> Failed ex msg)"

fun total_of :: "(nat buckets \<Rightarrow> nat) \<Rightarrow> exercise_outcome list \<Rightarrow> nat" where
  "total_of f [] = 0"
| "total_of f (Succeeded _ s # rest) = f (counts s) + total_of f rest"
| "total_of f (Failed _ _ # rest) = total_of f rest"

record main_run =
  exit_code :: nat
  allResults :: "exercise_outcome list"

text \<open>The \<open>for\<close> loop over the exercises, which pushes each outcome onto \<open>allResults\<close>.\<close>

fun run_exercises ::
  "world \<Rightarrow> bool \<Rightarrow> string list \<Rightarrow> exercise_outcome list \<Rightarrow> exercise_outcome list" where
  "run_exercises w skipRegen [] all = all"
| "run_exercises w skipRegen (ex # rest) all =
     run_exercises w skipRegen rest (all @ [run_exercise w skipRegen ex])"

text \<open>
  The part of \<open>main\<close> after the list of exercises is known: the loop, the totals and the
  exit code (0 stands for the normal end of the process).
\<close>

definition run_all :: "world \<Rightarrow> bool \<Rightarrow> string list \<Rightarrow> main_run" where
  "run_all w skipRegen exercises =
     (let all = run_exercises w skipRegen exercises [];
          totalFlagged = total_of flagged all;
          totalErrors = total_of errors all
      in \<lparr>exit_code =
            (if totalFlagged > 0 \<or> totalErrors > 0 \<or> list_ex (\<lambda>r. \<not> is_success r) all
             then 1 else 0),
          allResults = all\<rparr>)"

definition exit1 :: main_run where
  "exit1 = \<lparr>exit_code = 1, allResults = []\<rparr>"

definition main :: "world \<Rightarrow> string list \<Rightarrow> main_run" where
  "main w args =
     (let exerciseName = find (\<lambda>a. take 2 a \<noteq> ''--'') args;
          processAll = (''--all'' \<in> set args);
          skipRegen = (''--skip-regen'' \<in> set args)
      in if exerciseName = None \<and> \<not> processAll then exit1
         else if \<not> fal_key w then exit1
         else if \<not> anthropic_key w then exit1
         else
          (case video_scripts w of
             None \<Rightarrow> exit1
           | Some entries \<Rightarrow>
              if processAll then
                (let exercises = map ex_name (filter ex_is_directory entries)
                 in if length exercises = 0 then exit1 else run_all w skipRegen exercises)
              else
                (case exerciseName of
                   None \<Rightarrow> exit1
                 | Some name \<Rightarrow> run_all w skipRegen [name])))"

subsection \<open>The same functions on arbitrary inputs\<close>

text \<open>
  The definitions above take the judge's parsed reply to have the fields of a
  validation result, the persisted counter to be a natural number and the writes of
  the JSON files to succeed. The source checks none of this. The definitions of this
  subsection, named with the suffix \<open>_js\<close>, follow the same source lines without these
  assumptions: a parsed reply may lack a numeric \<open>confidence\<close>, a \<open>criteria_scores\<close>
  object or its lists; the counter \<open>validation_iteration\<close> is any integer; every
  \<open>fs.writeFile\<close> may throw. An exception that no \<open>try\<close> block of \<open>validateShot\<close>
  catches leaves the function: a run either \<open>Returned\<close> an outcome or has \<open>Thrown\<close>.
  The counter is a JavaScript number, on which \<open>iteration + 1\<close> is exact above
  \<open>-2^53\<close>; the integers of the model stand for the counters in that range, and the
  theorems about the counter are stated for them.
\<close>

datatype 'a completion = Returned 'a | Thrown string

text \<open>
  A field that should hold a list of strings: absent (or another falsy value), a
  string, an array, or another truthy value without a \<open>length\<close> (an object, a number,
  \<open>true\<close>). \<open>truthy\<close> is JavaScript's truthiness, \<open>or_items\<close> is \<open>field || []\<close>.
\<close>

datatype field_list = Missing | Text string | Items "string list" | Other

fun truthy :: "field_list \<Rightarrow> bool" where
  "truthy Missing = False"
| "truthy (Text s) = (s \<noteq> [])"
| "truthy (Items xs) = True"
| "truthy Other = True"

definition or_items :: "field_list \<Rightarrow> field_list" where
  "or_items f = (if truthy f then f else Items [])"

record js_result =
  js_success :: bool
  js_overall_pass :: bool
  js_confidence :: "rat option"
  js_criteria_scores :: "(string \<times> rat) list option"
  js_issues :: field_list
  js_suggestions :: field_list
  js_error :: "string option"

record js_validation_data = js_result +
  js_iteration :: int
  js_prompt_used :: string
  js_saved_status :: "shot_status option"

definition js_spread ::
  "js_result \<Rightarrow> int \<Rightarrow> string \<Rightarrow> shot_status option \<Rightarrow> string option \<Rightarrow> js_validation_data" where
  "js_spread r i p s e =
     \<lparr>js_success = js_success r, js_overall_pass = js_overall_pass r,
      js_confidence = js_confidence r, js_criteria_scores = js_criteria_scores r,
      js_issues = js_issues r, js_suggestions = js_suggestions r,
      js_error = e, js_iteration = i, js_prompt_used = p, js_saved_status = s\<rparr>"

text \<open>
  What \<open>JSON.parse\<close> returns is spread into the result unchecked: \<open>overall_pass\<close> is
  read for its truthiness, \<open>confidence\<close> is a number or not, and so on.
\<close>

datatype js_json =
  JsJson (jj_overall_pass: bool) (jj_confidence: "rat option")
         (jj_criteria_scores: "(string \<times> rat) list option")
         (jj_issues: field_list) (jj_suggestions: field_list)

datatype js_reply = ReplyThrows string | ReplyNoText | ReplyUnparseable string | ReplyParsed js_json

definition validateImage_js :: "string option \<Rightarrow> js_reply \<Rightarrow> string + js_result" where
  "validateImage_js load_error reply =
     (case load_error of
        Some msg \<Rightarrow> Inl msg
      | None \<Rightarrow>
         (case reply of
            ReplyThrows msg \<Rightarrow> Inl msg
          | ReplyNoText \<Rightarrow> Inl ''No text response from Claude''
          | ReplyUnparseable msg \<Rightarrow>
              Inr \<lparr>js_success = False, js_overall_pass = False, js_confidence = Some 0,
                   js_criteria_scores = Some [(''character_consistency'', 0), (''pose_accuracy'', 0),
                     (''muscle_highlighting'', 0), (''matches_tts_context'', 0),
                     (''no_hallucinations'', 0)],
                   js_issues = Items [''Failed to parse validation response''],
                   js_suggestions = Items [''Retry validation''],
                   js_error = Some msg\<rparr>
          | ReplyParsed j \<Rightarrow>
              Inr \<lparr>js_success = True, js_overall_pass = jj_overall_pass j,
                   js_confidence = jj_confidence j, js_criteria_scores = jj_criteria_scores j,
                   js_issues = jj_issues j, js_suggestions = jj_suggestions j,
                   js_error = None\<rparr>))"

text \<open>
  Before its \<open>try\<close> block \<open>refinePrompt\<close> calls \<open>Object.entries(criteriaScores)\<close>,
  \<open>issues.map\<close> and \<open>suggestions.map\<close>, each of which throws a \<open>TypeError\<close> on a
  value of the wrong kind; these exceptions leave \<open>refinePrompt\<close>.
\<close>

definition refinePrompt_js ::
  "string option \<Rightarrow> string \<Rightarrow> field_list \<Rightarrow> field_list \<Rightarrow> (string \<times> rat) list option
     \<Rightarrow> refine_reply \<Rightarrow> string + string" where
  "refinePrompt_js load_error originalPrompt issues_arg suggestions_arg criteriaScores reply =
     (case load_error of
        Some msg \<Rightarrow> Inl msg
      | None \<Rightarrow>
         (case criteriaScores of
            None \<Rightarrow> Inl ''Cannot convert undefined or null to object''
          | Some scores \<Rightarrow>
             (case issues_arg of
                Missing \<Rightarrow> Inl ''Cannot read properties of undefined (reading map)''
              | Text s \<Rightarrow> Inl ''issues.map is not a function''
              | Other \<Rightarrow> Inl ''issues.map is not a function''
              | Items is \<Rightarrow>
                 (case suggestions_arg of
                    Missing \<Rightarrow> Inl ''Cannot read properties of undefined (reading map)''
                  | Text s \<Rightarrow> Inl ''suggestions.map is not a function''
                  | Other \<Rightarrow> Inl ''suggestions.map is not a function''
                  | Items sg \<Rightarrow>
                     (case reply of
                        RefineThrows msg \<Rightarrow> Inr originalPrompt
                      | RefineNoText \<Rightarrow> Inr originalPrompt
                      | RefineText t \<Rightarrow> Inr (trim t))))))"

datatype js_history_entry =
  JsHistoryEntry (jh_iteration: int) (jh_prompt: string) (jh_issues: field_list)

record js_prompt_data =
  js_anchor_image :: string
  js_engineered_prompt :: string
  js_validation_iteration :: "int option"
  js_prompt_history :: "js_history_entry list option"

datatype js_prompt_file = JsNoPromptFile | JsBadPromptFile string | JsPromptFile js_prompt_data

text \<open>
  A shot folder and the services, as before; in addition the write of
  \<open>validation.json\<close> and the write of \<open>prompt.json\<close> made in pass \<open>k\<close> succeed
  (\<open>None\<close>) or throw.
\<close>

record js_shot =
  js_shot_id :: string
  js_is_directory :: bool
  js_prompt_json :: js_prompt_file
  js_image_png :: "string option"
  js_validation_json :: "js_validation_data option"
  js_judge :: "nat \<Rightarrow> js_reply"
  js_refiner :: "nat \<Rightarrow> refine_reply"
  js_editor :: "nat \<Rightarrow> edit_reply"
  js_downloader :: "nat \<Rightarrow> string + string"
  js_validation_write :: "nat \<Rightarrow> string option"
  js_prompt_write :: "nat \<Rightarrow> string option"

datatype js_event =
  JsValidating int js_prompt_data
| JsJudgeCall string
| JsRefineCall string
| JsGenerateCall string
| JsDownloadCall string
| JsSavePrompt js_prompt_data
| JsWriteValidation js_validation_data

record js_shot_result =
  js_status :: shot_status
  js_message :: "string option"
  js_validation :: "js_validation_data option"

record js_state =
  jst_iteration :: int
  jst_currentPrompt :: string
  jst_promptData :: js_prompt_data
  jst_image :: string
  jst_validation :: "js_validation_data option"
  jst_pass :: nat
  jst_events :: "js_event list"

datatype js_pass_result =
  JsContinue js_state
| JsReturn js_shot_result js_state
| JsThrow string js_state

text \<open>
  Writing \<open>validation.json\<close> and then returning the outcome; when the write throws,
  the exception leaves \<open>validateShot\<close>, since none of the three writes is inside a
  \<open>try\<close> block (the third is inside the \<open>catch\<close> handler).
\<close>

definition write_and_return ::
  "js_shot \<Rightarrow> js_state \<Rightarrow> js_event list \<Rightarrow> shot_status \<Rightarrow> string option \<Rightarrow> js_validation_data
     \<Rightarrow> js_pass_result" where
  "write_and_return env st evs s msg validationData =
     (case js_validation_write env (jst_pass st) of
        Some e \<Rightarrow> JsThrow e (st\<lparr>jst_events := evs\<rparr>)
      | None \<Rightarrow>
          JsReturn \<lparr>js_status = s, js_message = msg, js_validation = Some validationData\<rparr>
            (st\<lparr>jst_validation := Some validationData,
                jst_events := evs @ [JsWriteValidation validationData]\<rparr>))"

definition regen_failed_js ::
  "js_shot \<Rightarrow> js_state \<Rightarrow> js_result \<Rightarrow> js_event list \<Rightarrow> string \<Rightarrow> js_pass_result" where
  "regen_failed_js env st validationResult evs msg =
     write_and_return env st evs Error (Some msg)
       (js_spread validationResult (jst_iteration st) (jst_currentPrompt st) (Some Error) (Some msg))"

definition regenerate_js :: "world \<Rightarrow> js_shot \<Rightarrow> js_state \<Rightarrow> js_result \<Rightarrow> js_pass_result" where
  "regenerate_js w env st validationResult =
     (let iteration_v = jst_iteration st;
          currentPrompt = jst_currentPrompt st;
          promptData = jst_promptData st;
          k = jst_pass st;
          ev1 = jst_events st @ [JsRefineCall currentPrompt]
      in case refinePrompt_js (config_error w) currentPrompt (or_items (js_issues validationResult))
                (or_items (js_suggestions validationResult)) (js_criteria_scores validationResult)
                (js_refiner env k) of
           Inl msg \<Rightarrow> regen_failed_js env st validationResult ev1 msg
         | Inr refinedPrompt \<Rightarrow>
            (case getAnchorDataUrl w (js_anchor_image promptData) of
               Inl msg \<Rightarrow> regen_failed_js env st validationResult ev1 msg
             | Inr anchorDataUrl \<Rightarrow>
                (let ev2 = ev1 @ [JsGenerateCall refinedPrompt] in
                 case editImage (js_editor env k) of
                   Inl msg \<Rightarrow> regen_failed_js env st validationResult ev2 msg
                 | Inr newImageUrl \<Rightarrow>
                    (let ev3 = ev2 @ [JsDownloadCall newImageUrl] in
                     case js_downloader env k of
                       Inl msg \<Rightarrow> regen_failed_js env st validationResult ev3 msg
                     | Inr newImage \<Rightarrow>
                        (let promptData' = promptData
                               \<lparr>js_engineered_prompt := refinedPrompt,
                                js_validation_iteration := Some (iteration_v + 1),
                                js_prompt_history := Some (or_empty (js_prompt_history promptData) @
                                  [JsHistoryEntry iteration_v currentPrompt
                                     (js_issues validationResult)])\<rparr>
                         in case js_prompt_write env k of
                              Some msg \<Rightarrow>
                                regen_failed_js env (st\<lparr>jst_image := newImage\<rparr>)
                                  validationResult ev3 msg
                            | None \<Rightarrow>
                                JsContinue (st\<lparr>jst_image := newImage,
                                               jst_promptData := promptData',
                                               jst_currentPrompt := refinedPrompt,
                                               jst_iteration := iteration_v + 1,
                                               jst_pass := k + 1,
                                               jst_events := ev3 @ [JsSavePrompt promptData']\<rparr>))))))"

text \<open>
  One pass of the \<open>while\<close> loop. The two \<open>console.log\<close> calls that format
  \<open>confidence.toFixed(2)\<close> and the one that joins the first two issues are evaluated
  outside every \<open>try\<close> block, so their \<open>TypeError\<close> leaves \<open>validateShot\<close>.
\<close>

definition loop_pass_js :: "config \<Rightarrow> world \<Rightarrow> js_shot \<Rightarrow> bool \<Rightarrow> js_state \<Rightarrow> js_pass_result" where
  "loop_pass_js cfg w env skipRegen st =
     (let iteration_v = jst_iteration st;
          currentPrompt = jst_currentPrompt st;
          evs = jst_events st @ [JsValidating iteration_v (jst_promptData st), JsJudgeCall currentPrompt];
          st1 = st\<lparr>jst_events := evs\<rparr>
      in case validateImage_js (config_error w) (js_judge env (jst_pass st)) of
           Inl msg \<Rightarrow>
             JsReturn \<lparr>js_status = Error, js_message = Some (''Validation failed: '' @ msg),
                       js_validation = None\<rparr> st1
         | Inr validationResult \<Rightarrow>
            (case js_confidence validationResult of
               None \<Rightarrow> JsThrow ''Cannot read properties of undefined (reading toFixed)'' st1
             | Some c \<Rightarrow>
                 if js_overall_pass validationResult then
                   write_and_return env st1 evs Approved None
                     (js_spread validationResult iteration_v currentPrompt None
                        (js_error validationResult))
                 else
                   (case js_issues validationResult of
                      Text (ch # s) \<Rightarrow>
                        JsThrow ''validationResult.issues.slice(...).join is not a function'' st1
                    | _ \<Rightarrow>
                        if skipRegen \<or> iteration_v \<ge> int (maxIterations cfg) then
                          write_and_return env st1 evs Flagged None
                            (js_spread validationResult iteration_v currentPrompt (Some Flagged)
                               (js_error validationResult))
                        else regenerate_js w env st1 validationResult)))"

text \<open>The \<open>while\<close> loop: every pass that continues has incremented the counter.\<close>

function validate_loop_js ::
  "config \<Rightarrow> world \<Rightarrow> js_shot \<Rightarrow> bool \<Rightarrow> js_state \<Rightarrow> js_shot_result completion \<times> js_state" where
  "validate_loop_js cfg w env skipRegen st =
     (if jst_iteration st \<le> int (maxIterations cfg) then
        (case loop_pass_js cfg w env skipRegen st of
           JsReturn r st' \<Rightarrow> (Returned r, st')
         | JsThrow msg st' \<Rightarrow> (Thrown msg, st')
         | JsContinue st' \<Rightarrow> validate_loop_js cfg w env skipRegen st')
      else (Returned \<lparr>js_status = Error, js_message = Some ''Unexpected end of validation loop'',
                      js_validation = None\<rparr>, st))"
  by pat_completeness auto
termination
  by (relation "measure (\<lambda>(cfg, w, env, skipRegen, st).
         nat (int (maxIterations cfg) + 1 - jst_iteration st))")
     (auto simp: loop_pass_js_def regenerate_js_def regen_failed_js_def write_and_return_def Let_def
           split: sum.splits if_splits option.splits field_list.splits list.splits)

declare validate_loop_js.simps [simp del]

record js_run =
  js_outcome :: "js_shot_result completion"
  js_after :: js_shot
  js_events :: "js_event list"

definition initial_state_js :: "js_shot \<Rightarrow> js_prompt_data \<Rightarrow> string \<Rightarrow> js_state" where
  "initial_state_js shot promptData img =
     \<lparr>jst_iteration = (case js_validation_iteration promptData of None \<Rightarrow> 0 | Some n \<Rightarrow> n),
      jst_currentPrompt = js_engineered_prompt promptData,
      jst_promptData = promptData,
      jst_image = img,
      jst_validation = js_validation_json shot,
      jst_pass = 0,
      jst_events = []\<rparr>"

definition early_return :: "js_shot \<Rightarrow> shot_status \<Rightarrow> string \<Rightarrow> js_run" where
  "early_return shot s msg =
     \<lparr>js_outcome = Returned \<lparr>js_status = s, js_message = Some msg, js_validation = None\<rparr>,
      js_after = shot, js_events = []\<rparr>"

definition validateShot_js :: "config \<Rightarrow> world \<Rightarrow> js_shot \<Rightarrow> bool \<Rightarrow> js_run" where
  "validateShot_js cfg w shot skipRegen =
     (case js_image_png shot of
        None \<Rightarrow> early_return shot No_image ''No image.png found in shot folder''
      | Some img \<Rightarrow>
         (case js_prompt_json shot of
            JsNoPromptFile \<Rightarrow>
              early_return shot Error
                (''Failed to load prompt.json: '' @ ''ENOENT: no such file or directory'')
          | JsBadPromptFile msg \<Rightarrow>
              early_return shot Error (''Failed to load prompt.json: '' @ msg)
          | JsPromptFile promptData \<Rightarrow>
             (case getAnchorPath w (js_anchor_image promptData) of
                Inl msg \<Rightarrow> early_return shot Error msg
              | Inr anchorPath \<Rightarrow>
                 (let (r, st) = validate_loop_js cfg w shot skipRegen
                                  (initial_state_js shot promptData img)
                  in \<lparr>js_outcome = r,
                      js_after = shot\<lparr>js_prompt_json := JsPromptFile (jst_promptData st),
                                      js_image_png := Some (jst_image st),
                                      js_validation_json := jst_validation st\<rparr>,
                      js_events = jst_events st\<rparr>))))"

text \<open>
  The folders of an exercise; \<open>jx_summary_write\<close> is the exception of the write of
  \<open>validation-summary.json\<close>, if it throws.
\<close>

record js_exercise =
  jx_name :: string
  jx_is_directory :: bool
  jx_shots_dir :: "js_shot list option"
  jx_summary_write :: "string option"

definition getShotFolders_js :: "world \<Rightarrow> js_exercise \<Rightarrow> js_shot list" where
  "getShotFolders_js w ex =
     (case jx_shots_dir ex of
        None \<Rightarrow> []
      | Some entries \<Rightarrow>
          sort_by (\<lambda>a b. localeCompare w (js_shot_id a) (js_shot_id b))
            (filter (\<lambda>entry. js_is_directory entry \<and> js_prompt_json entry \<noteq> JsNoPromptFile)
               entries))"

type_synonym js_item = "string \<times> js_shot_result"

record js_summary =
  js_exercise_name :: string
  js_total_shots :: nat
  js_counts :: "nat buckets"
  js_ready_for_assembly :: bool
  js_blocking_issues :: "(string \<times> (field_list + string option)) list"
  js_shots :: "string list buckets"

definition flagged_issues_js :: "js_item list \<Rightarrow> (string \<times> (field_list + string option)) list" where
  "flagged_issues_js items =
     concat (map (\<lambda>item.
       (case js_validation (snd item) of
          None \<Rightarrow> []
        | Some v \<Rightarrow> (if truthy (js_issues v) then [(fst item, Inl (js_issues v))] else []))) items)"

definition generateValidationSummary_js :: "string \<Rightarrow> js_item list buckets \<Rightarrow> nat \<Rightarrow> js_summary" where
  "generateValidationSummary_js exerciseName results_v totalShots =
     (let approved_n = length (approved results_v);
          flagged_n = length (flagged results_v);
          rejected_n = length (rejected results_v);
          noImage = length (no_image results_v);
          errors_n = length (errors results_v);
          blockingIssues = flagged_issues_js (flagged results_v) @
             map (\<lambda>item. (fst item, Inr (js_message (snd item)))) (errors results_v);
          readyForAssembly =
            (flagged_n = 0 \<and> rejected_n = 0 \<and> errors_n = 0 \<and> noImage = 0 \<and>
             approved_n = totalShots)
      in \<lparr>js_exercise_name = exerciseName,
          js_total_shots = totalShots,
          js_counts = \<lparr>approved = approved_n, flagged = flagged_n, rejected = rejected_n,
                       no_image = noImage, errors = errors_n\<rparr>,
          js_ready_for_assembly = readyForAssembly,
          js_blocking_issues = blockingIssues,
          js_shots = \<lparr>approved = map fst (approved results_v), flagged = map fst (flagged results_v),
                      rejected = map fst (rejected results_v), no_image = map fst (no_image results_v),
                      errors = map fst (errors results_v)\<rparr>\<rparr>)"

definition add_result_js :: "js_item list buckets \<Rightarrow> js_item \<Rightarrow> js_item list buckets" where
  "add_result_js rs item =
     (case js_status (snd item) of
        Approved \<Rightarrow> rs\<lparr>approved := approved rs @ [item]\<rparr>
      | Flagged \<Rightarrow> rs\<lparr>flagged := flagged rs @ [item]\<rparr>
      | Rejected \<Rightarrow> rs\<lparr>rejected := rejected rs @ [item]\<rparr>
      | No_image \<Rightarrow> rs\<lparr>no_image := no_image rs @ [item]\<rparr>
      | Error \<Rightarrow> rs\<lparr>errors := errors rs @ [item]\<rparr>)"

text \<open>
  The \<open>for\<close> loop over the shots. The call of \<open>validateShot\<close> is not inside a \<open>try\<close>
  block, so an exception of a shot ends the loop and leaves \<open>validateExercise\<close>; the
  runs made so far are kept beside the result.
\<close>

fun process_shots_js ::
  "config \<Rightarrow> world \<Rightarrow> bool \<Rightarrow> js_shot list \<Rightarrow> js_item list buckets \<Rightarrow> js_run list
     \<Rightarrow> js_item list buckets completion \<times> js_run list" where
  "process_shots_js cfg w skipRegen [] rs runs = (Returned rs, runs)"
| "process_shots_js cfg w skipRegen (shot # rest) rs runs =
     (let run = validateShot_js cfg w shot skipRegen
      in case js_outcome run of
           Thrown msg \<Rightarrow> (Thrown msg, runs @ [run])
         | Returned r \<Rightarrow>
             process_shots_js cfg w skipRegen rest (add_result_js rs (js_shot_id shot, r))
               (runs @ [run]))"

record js_exercise_run =
  jx_outcome :: "(js_item list buckets \<times> js_summary) completion"
  jx_shot_runs :: "js_run list"

definition empty_results_js :: "js_item list buckets" where
  "empty_results_js = \<lparr>approved = [], flagged = [], rejected = [], no_image = [], errors = []\<rparr>"

definition validateExercise_js ::
  "config \<Rightarrow> world \<Rightarrow> js_exercise list \<Rightarrow> string \<Rightarrow> bool \<Rightarrow> js_exercise_run" where
  "validateExercise_js cfg w exercises exerciseName skipRegen =
     (let exerciseDir = videoScriptsDir w @ ''/'' @ exerciseName in
      case find (\<lambda>e. jx_name e = exerciseName) exercises of
        None \<Rightarrow> \<lparr>jx_outcome = Thrown (''Exercise not found: '' @ exerciseName), jx_shot_runs = []\<rparr>
      | Some ex \<Rightarrow>
         (let shot_list = getShotFolders_js w ex in
          if length shot_list = 0
          then \<lparr>jx_outcome = Thrown (''No shots found in: '' @ exerciseDir @ ''/shots/''),
                jx_shot_runs = []\<rparr>
          else
            (case process_shots_js cfg w skipRegen shot_list empty_results_js [] of
               (Thrown msg, runs) \<Rightarrow> \<lparr>jx_outcome = Thrown msg, jx_shot_runs = runs\<rparr>
             | (Returned rs, runs) \<Rightarrow>
                (case jx_summary_write ex of
                   Some msg \<Rightarrow> \<lparr>jx_outcome = Thrown msg, jx_shot_runs = runs\<rparr>
                 | None \<Rightarrow>
                     \<lparr>jx_outcome = Returned
                        (rs, generateValidationSummary_js exerciseName rs (length shot_list)),
                      jx_shot_runs = runs\<rparr>))))"

datatype js_exercise_outcome =
  JsSucceeded string js_summary
| JsFailed string string

fun is_success_js :: "js_exercise_outcome \<Rightarrow> bool" where
  "is_success_js (JsSucceeded _ _) = True"
| "is_success_js (JsFailed _ _) = False"

text \<open>The body of the loop of \<open>main\<close>: here the exception of an exercise is caught.\<close>

definition run_exercise_js :: "world \<Rightarrow> js_exercise list \<Rightarrow> bool \<Rightarrow> string \<Rightarrow> js_exercise_outcome" where
  "run_exercise_js w exercises skipRegen ex =
     (case jx_outcome (validateExercise_js CONFIG w exercises ex skipRegen) of
        Returned (rs, s) \<Rightarrow> JsSucceeded ex s
      | Thrown msg \<Rightarrow> JsFailed ex msg)"

fun run_exercises_js ::
  "world \<Rightarrow> js_exercise list \<Rightarrow> bool \<Rightarrow> string list \<Rightarrow> js_exercise_outcome list
     \<Rightarrow> js_exercise_outcome list" where
  "run_exercises_js w exercises skipRegen [] all = all"
| "run_exercises_js w exercises skipRegen (ex # rest) all =
     run_exercises_js w exercises skipRegen rest (all @ [run_exercise_js w exercises skipRegen ex])"

fun total_of_js :: "(nat buckets \<Rightarrow> nat) \<Rightarrow> js_exercise_outcome list \<Rightarrow> nat" where
  "total_of_js f [] = 0"
| "total_of_js f (JsSucceeded _ s # rest) = f (js_counts s) + total_of_js f rest"
| "total_of_js f (JsFailed _ _ # rest) = total_of_js f rest"

record js_main_run =
  js_exit_code :: nat
  js_allResults :: "js_exercise_outcome list"

definition run_all_js :: "world \<Rightarrow> js_exercise list \<Rightarrow> bool \<Rightarrow> string list \<Rightarrow> js_main_run" where
  "run_all_js w exercises skipRegen names =
     (let all = run_exercises_js w exercises skipRegen names [];
          totalFlagged = total_of_js flagged all;
          totalErrors = total_of_js errors all
      in \<lparr>js_exit_code =
            (if totalFlagged > 0 \<or> totalErrors > 0 \<or> list_ex (\<lambda>r. \<not> is_success_js r) all
             then 1 else 0),
          js_allResults = all\<rparr>)"

definition main_js :: "world \<Rightarrow> js_exercise list option \<Rightarrow> string list \<Rightarrow> js_main_run" where
  "main_js w scripts args =
     (let exerciseName = find (\<lambda>a. take 2 a \<noteq> ''--'') args;
          processAll = (''--all'' \<in> set args);
          skipRegen = (''--skip-regen'' \<in> set args);
          exit_1 = \<lparr>js_exit_code = 1, js_allResults = []\<rparr>
      in if exerciseName = None \<and> \<not> processAll then exit_1
         else if \<not> fal_key w then exit_1
         else if \<not> anthropic_key w then exit_1
         else
          (case scripts of
             None \<Rightarrow> exit_1
           | Some entries \<Rightarrow>
              if processAll then
                (let names = map jx_name (filter jx_is_directory entries)
                 in if length names = 0 then exit_1 else run_all_js w entries skipRegen names)
              else
                (case exerciseName of
                   None \<Rightarrow> exit_1
                 | Some name \<Rightarrow> run_all_js w entries skipRegen [name])))"





text \<open>
  A well-formed input, read as an arbitrary one: a natural number as an integer, an
  optional list as a field, and writes that succeed.
\<close>

definition loosen_list :: "string list option \<Rightarrow> field_list" where
  "loosen_list xs = (case xs of None \<Rightarrow> Missing | Some ys \<Rightarrow> Items ys)"

definition loosen_result :: "validation_result \<Rightarrow> js_result" where
  "loosen_result r =
     \<lparr>js_success = success r, js_overall_pass = overall_pass r, js_confidence = Some (confidence r),
      js_criteria_scores = Some (criteria_scores r), js_issues = loosen_list (issues r),
      js_suggestions = loosen_list (suggestions r), js_error = error r\<rparr>"

definition loosen_data :: "validation_data \<Rightarrow> js_validation_data" where
  "loosen_data v =
     \<lparr>js_success = success v, js_overall_pass = overall_pass v, js_confidence = Some (confidence v),
      js_criteria_scores = Some (criteria_scores v), js_issues = loosen_list (issues v),
      js_suggestions = loosen_list (suggestions v), js_error = error v,
      js_iteration = int (iteration v), js_prompt_used = prompt_used v,
      js_saved_status = saved_status v\<rparr>"

fun loosen_reply :: "judge_reply \<Rightarrow> js_reply" where
  "loosen_reply (JudgeThrows msg) = ReplyThrows msg"
| "loosen_reply JudgeNoText = ReplyNoText"
| "loosen_reply (JudgeUnparseable msg) = ReplyUnparseable msg"
| "loosen_reply (JudgeParsed j) =
     ReplyParsed (JsJson (j_overall_pass j) (Some (j_confidence j)) (Some (j_criteria_scores j))
       (loosen_list (j_issues j)) (loosen_list (j_suggestions j)))"

fun loosen_entry :: "history_entry \<Rightarrow> js_history_entry" where
  "loosen_entry (HistoryEntry i p is) = JsHistoryEntry (int i) p (loosen_list is)"

definition loosen_prompt :: "prompt_data \<Rightarrow> js_prompt_data" where
  "loosen_prompt d =
     \<lparr>js_anchor_image = anchor_image d, js_engineered_prompt = engineered_prompt d,
      js_validation_iteration = map_option int (validation_iteration d),
      js_prompt_history = map_option (map loosen_entry) (prompt_history d)\<rparr>"

fun loosen_file :: "prompt_file \<Rightarrow> js_prompt_file" where
  "loosen_file NoPromptFile = JsNoPromptFile"
| "loosen_file (BadPromptFile msg) = JsBadPromptFile msg"
| "loosen_file (PromptFile d) = JsPromptFile (loosen_prompt d)"

definition loosen_shot :: "shot_env \<Rightarrow> js_shot" where
  "loosen_shot shot =
     \<lparr>js_shot_id = shot_id shot, js_is_directory = is_directory shot,
      js_prompt_json = loosen_file (prompt_json shot), js_image_png = image_png shot,
      js_validation_json = map_option loosen_data (validation_json shot),
      js_judge = (\<lambda>k. loosen_reply (judge shot k)), js_refiner = refiner shot,
      js_editor = editor shot, js_downloader = downloader shot,
      js_validation_write = (\<lambda>k. None), js_prompt_write = (\<lambda>k. None)\<rparr>"

fun loosen_event :: "event \<Rightarrow> js_event" where
  "loosen_event (Validating i d) = JsValidating (int i) (loosen_prompt d)"
| "loosen_event (JudgeCall p) = JsJudgeCall p"
| "loosen_event (RefineCall p) = JsRefineCall p"
| "loosen_event (GenerateCall p) = JsGenerateCall p"
| "loosen_event (DownloadCall u) = JsDownloadCall u"
| "loosen_event (SavePrompt d) = JsSavePrompt (loosen_prompt d)"
| "loosen_event (WriteValidation v) = JsWriteValidation (loosen_data v)"

definition loosen_outcome :: "shot_result \<Rightarrow> js_shot_result" where
  "loosen_outcome r =
     \<lparr>js_status = status r, js_message = message r,
      js_validation = map_option loosen_data (validation r)\<rparr>"

definition loosen_state :: "loop_state \<Rightarrow> js_state" where
  "loosen_state s =
     \<lparr>jst_iteration = int (st_iteration s), jst_currentPrompt = st_currentPrompt s,
      jst_promptData = loosen_prompt (st_promptData s), jst_image = st_image s,
      jst_validation = map_option loosen_data (st_validation s), jst_pass = st_pass s,
      jst_events = map loosen_event (st_events s)\<rparr>"

fun loosen_pass :: "pass_result \<Rightarrow> js_pass_result" where
  "loosen_pass (Continue s) = JsContinue (loosen_state s)"
| "loosen_pass (Return r s) = JsReturn (loosen_outcome r) (loosen_state s)"

definition loosen_run :: "shot_run \<Rightarrow> js_run" where
  "loosen_run r =
     \<lparr>js_outcome = Returned (loosen_outcome (result r)), js_after = loosen_shot (after r),
      js_events = map loosen_event (events r)\<rparr>"

subsection \<open>Observations on traces\<close>

fun is_service_call :: "event \<Rightarrow> bool" where
  "is_service_call (RefineCall _) = True"
| "is_service_call (GenerateCall _) = True"
| "is_service_call (DownloadCall _) = True"
| "is_service_call _ = False"

fun is_write_validation :: "event \<Rightarrow> bool" where
  "is_write_validation (WriteValidation _) = True"
| "is_write_validation _ = False"

definition viter :: "prompt_data \<Rightarrow> nat" where
  "viter d = (case validation_iteration d of None \<Rightarrow> 0 | Some n \<Rightarrow> n)"

definition refined_record :: "loop_state \<Rightarrow> validation_result \<Rightarrow> string \<Rightarrow> prompt_data" where
  "refined_record st vr refined =
     (st_promptData st)
        \<lparr>engineered_prompt := refined,
         validation_iteration := Some (st_iteration st + 1),
         prompt_history := Some (or_empty (prompt_history (st_promptData st)) @
            [HistoryEntry (st_iteration st) (st_currentPrompt st) (issues vr)])\<rparr>"

fun validating_iterations :: "event list \<Rightarrow> nat list" where
  "validating_iterations [] = []"
| "validating_iterations (Validating i d # es) = i # validating_iterations es"
| "validating_iterations (_ # es) = validating_iterations es"

definition history_length :: "prompt_data \<Rightarrow> nat" where
  "history_length d = length (or_empty (prompt_history d))"

definition bounded_state :: "nat \<Rightarrow> loop_state \<Rightarrow> bool" where
  "bounded_state m s \<longleftrightarrow>
     st_iteration s \<le> m \<and> viter (st_promptData s) = st_iteration s \<and>
     sorted (validating_iterations (st_events s)) \<and>
     (\<forall>i \<in> set (validating_iterations (st_events s)). i \<le> st_iteration s) \<and>
     (\<forall>vd. WriteValidation vd \<in> set (st_events s) \<longrightarrow> iteration vd \<le> m)"

definition consistent_state :: "loop_state \<Rightarrow> bool" where
  "consistent_state s \<longleftrightarrow>
     history_length (st_promptData s) = st_iteration s \<and>
     viter (st_promptData s) = st_iteration s \<and>
     (\<forall>i d. Validating i d \<in> set (st_events s) \<longrightarrow> history_length d = i \<and> viter d = i) \<and>
     (\<forall>d. SavePrompt d \<in> set (st_events s) \<longrightarrow> history_length d = viter d)"

fun pass_state :: "pass_result \<Rightarrow> loop_state" where
  "pass_state (Continue s) = s"
| "pass_state (Return r s) = s"

fun pass_kind :: "pass_result \<Rightarrow> shot_status option \<times> nat" where
  "pass_kind (Continue s) = (None, st_iteration s)"
| "pass_kind (Return r s) = (Some (status r), st_iteration s)"

text \<open>The list of a status among the five, and the readiness flag in the words of the specification.\<close>

fun bucket :: "shot_status \<Rightarrow> 'a buckets \<Rightarrow> 'a" where
  "bucket Approved b = approved b"
| "bucket Flagged b = flagged b"
| "bucket Rejected b = rejected b"
| "bucket No_image b = no_image b"
| "bucket Error b = errors b"

definition spec_readyForAssembly :: "nat buckets \<Rightarrow> nat \<Rightarrow> bool" where
  "spec_readyForAssembly c totalShots \<longleftrightarrow> approved c = totalShots \<and> flagged c = 0 \<and> errors c = 0"

subsection \<open>Example shots\<close>

definition demo_world :: world where
  "demo_world = \<lparr>fal_key = True, anthropic_key = True, config_error = None,
     anchor_abs = (\<lambda>p. ''/repo/'' @ p),
     accessible = (\<lambda>p. p = ''/repo/output/anchors-selected/bent.png''),
     localeCompare = (\<lambda>a b. 0), videoScriptsDir = ''/repo/output/video-scripts'',
     video_scripts = Some []\<rparr>"

definition demo_prompt :: prompt_data where
  "demo_prompt = \<lparr>anchor_image = ''output/anchors-selected/bent.png'', engineered_prompt = ''p0'',
      validation_iteration = None, prompt_history = Some []\<rparr>"

definition pass_json :: judge_json where
  "pass_json = JudgeJson True (9/10) [] (Some []) (Some [])"

definition fail_json :: judge_json where
  "fail_json = JudgeJson False (3/10) [] (Some [''pose wrong'']) None"

definition demo_shot :: "string \<Rightarrow> (nat \<Rightarrow> judge_reply) \<Rightarrow> (nat \<Rightarrow> edit_reply) \<Rightarrow> shot_env" where
  "demo_shot name jd ed = \<lparr>shot_id = name, is_directory = True, prompt_json = PromptFile demo_prompt,
     image_png = Some ''img0'', validation_json = None,
     judge = jd, refiner = (\<lambda>k. RefineText '' p1 ''), editor = ed,
     downloader = (\<lambda>k. Inr ''img1'')\<rparr>"

definition always_pass :: "nat \<Rightarrow> judge_reply" where
  "always_pass k = JudgeParsed pass_json"

definition always_fail :: "nat \<Rightarrow> judge_reply" where
  "always_fail k = JudgeParsed fail_json"

definition edit_ok :: "nat \<Rightarrow> edit_reply" where
  "edit_ok k = EditResult None (Some [''https://img/new.png''])"

definition edit_down :: "nat \<Rightarrow> edit_reply" where
  "edit_down k = EditThrows ''service unavailable''"

definition no_image_shot :: shot_env where
  "no_image_shot = (demo_shot ''02-mid'' always_pass edit_ok)\<lparr>image_png := None\<rparr>"

definition fail_then_pass :: "nat \<Rightarrow> judge_reply" where
  "fail_then_pass k = (if k = 0 then JudgeParsed fail_json else JudgeParsed pass_json)"

definition refiner_down :: "nat \<Rightarrow> refine_reply" where
  "refiner_down k = RefineThrows ''overloaded''"

definition unparseable_then_pass :: "nat \<Rightarrow> judge_reply" where
  "unparseable_then_pass k =
     (if k = 0 then JudgeUnparseable ''Unexpected token H in JSON at position 0''
      else JudgeParsed pass_json)"

definition generation_fails_run :: shot_run where
  "generation_fails_run =
     validateShot CONFIG demo_world (demo_shot ''01-start'' always_fail edit_down) False"

definition unparseable_run :: shot_run where
  "unparseable_run =
     validateShot CONFIG demo_world (demo_shot ''01-start'' unparseable_then_pass edit_ok) False"

definition judge_down :: "nat \<Rightarrow> judge_reply" where
  "judge_down k = JudgeThrows ''network error''"

definition squat_exercise :: exercise_env where
  "squat_exercise = \<lparr>ex_name = ''squat'', ex_is_directory = True,
     shots_dir = Some [demo_shot ''01-start'' judge_down edit_ok,
                       demo_shot ''02-mid'' always_pass edit_ok]\<rparr>"

definition row_exercise :: exercise_env where
  "row_exercise = \<lparr>ex_name = ''row'', ex_is_directory = True,
     shots_dir = Some [demo_shot ''01-start'' always_pass edit_ok]\<rparr>"

definition curl_exercise :: exercise_env where
  "curl_exercise = \<lparr>ex_name = ''curl'', ex_is_directory = True,
     shots_dir = Some [demo_shot ''01-start'' always_pass edit_ok, no_image_shot]\<rparr>"

definition batch_world :: world where
  "batch_world = demo_world\<lparr>video_scripts := Some [squat_exercise, row_exercise]\<rparr>"

definition curl_world :: world where
  "curl_world = demo_world\<lparr>video_scripts := Some [curl_exercise]\<rparr>"

definition js_demo_shot :: "string \<Rightarrow> int option \<Rightarrow> (nat \<Rightarrow> js_reply) \<Rightarrow> js_shot" where
  "js_demo_shot name c jd =
     \<lparr>js_shot_id = name, js_is_directory = True,
      js_prompt_json = JsPromptFile
        \<lparr>js_anchor_image = ''output/anchors-selected/bent.png'', js_engineered_prompt = ''p0'',
         js_validation_iteration = c, js_prompt_history = Some []\<rparr>,
      js_image_png = Some ''img0'', js_validation_json = None,
      js_judge = jd, js_refiner = (\<lambda>k. RefineText '' p1 ''), js_editor = edit_ok,
      js_downloader = (\<lambda>k. Inr ''img1''),
      js_validation_write = (\<lambda>k. None), js_prompt_write = (\<lambda>k. None)\<rparr>"

definition reply_pass :: "nat \<Rightarrow> js_reply" where
  "reply_pass k = ReplyParsed (JsJson True (Some (9 / 10)) (Some []) (Items []) (Items []))"

definition reply_fail :: "nat \<Rightarrow> js_reply" where
  "reply_fail k = ReplyParsed (JsJson False (Some (3 / 10)) (Some []) (Items [''pose wrong'']) (Items []))"

text \<open>The reply \<open>{"overall_pass": true}\<close>: valid JSON without a confidence.\<close>

definition reply_without_confidence :: "nat \<Rightarrow> js_reply" where
  "reply_without_confidence k = ReplyParsed (JsJson True None None Missing Missing)"

definition js_squat :: js_exercise where
  "js_squat = \<lparr>jx_name = ''squat'', jx_is_directory = True,
     jx_shots_dir = Some [js_demo_shot ''01-start'' None reply_without_confidence,
                          js_demo_shot ''02-mid'' None reply_pass],
     jx_summary_write = None\<rparr>"

definition js_row :: js_exercise where
  "js_row = \<lparr>jx_name = ''row'', jx_is_directory = True,
     jx_shots_dir = Some [js_demo_shot ''01-start'' None reply_pass],
     jx_summary_write = None\<rparr>"

section \<open>Properties of one pass and of the loop\<close>

lemmas demo_defs = demo_world_def demo_prompt_def pass_json_def fail_json_def demo_shot_def
  always_pass_def always_fail_def edit_ok_def edit_down_def no_image_shot_def CONFIG_def

lemmas run_defs = validateShot_def getAnchorPath_def getAnchorDataUrl_def initial_state_def
  loop_pass_def regenerate_def regen_failed_def validateImage_def refinePrompt_def
  spread_def or_empty_def parse_failure_def trim_def is_space_def Let_def

lemma regenerate_cases:
  "regenerate w env st vr = Continue st' \<Longrightarrow>
     \<exists>refined url img.
       refinePrompt (config_error w) (st_currentPrompt st) (or_empty (issues vr))
          (or_empty (suggestions vr)) (criteria_scores vr) (refiner env (st_pass st)) = Inr refined \<and>
       editImage (editor env (st_pass st)) = Inr url \<and>
       downloader env (st_pass st) = Inr img \<and>
       st' = st\<lparr>st_image := img,
                st_promptData := (st_promptData st)
                   \<lparr>engineered_prompt := refined,
                    validation_iteration := Some (st_iteration st + 1),
                    prompt_history := Some (or_empty (prompt_history (st_promptData st)) @
                       [HistoryEntry (st_iteration st) (st_currentPrompt st) (issues vr)])\<rparr>,
                st_currentPrompt := refined,
                st_iteration := st_iteration st + 1,
                st_pass := st_pass st + 1,
                st_events := st_events st @ [RefineCall (st_currentPrompt st), GenerateCall refined,
                   DownloadCall url,
                   SavePrompt ((st_promptData st)
                   \<lparr>engineered_prompt := refined,
                    validation_iteration := Some (st_iteration st + 1),
                    prompt_history := Some (or_empty (prompt_history (st_promptData st)) @
                       [HistoryEntry (st_iteration st) (st_currentPrompt st) (issues vr)])\<rparr>)]\<rparr>"
  by (auto simp: regenerate_def regen_failed_def Let_def split: sum.splits)

lemma regenerate_Return:
  "regenerate w env st vr = Return r st' \<Longrightarrow>
     \<exists>msg evs. status r = Error \<and> message r = Some msg \<and>
       validation r = Some (spread vr (st_iteration st) (st_currentPrompt st) (Some Error) (Some msg)) \<and>
       st' = st\<lparr>st_validation := validation r,
                st_events := st_events st @ evs @ [WriteValidation (spread vr (st_iteration st) (st_currentPrompt st) (Some Error) (Some msg))]\<rparr> \<and>
       (\<forall>e \<in> set evs. is_service_call e)"
  apply (auto simp: regenerate_def regen_failed_def Let_def split: sum.splits)
     apply (rule exI[of _ "[RefineCall (st_currentPrompt st)]"]; simp)
    apply (rule exI[of _ "[RefineCall (st_currentPrompt st)]"]; simp)
  subgoal for refined url msg
   apply (rule exI[of _ "[RefineCall (st_currentPrompt st), GenerateCall refined]"]; simp) done
  subgoal for refined x url msg
   apply (rule exI[of _ "[RefineCall (st_currentPrompt st), GenerateCall refined, DownloadCall url]"]; simp) done
  done

lemma loop_pass_Continue_D:
  assumes "loop_pass cfg w env skipRegen st = Continue st'"
  shows "\<exists>vr refined url img.
       validateImage (config_error w) (judge env (st_pass st)) = Inr vr \<and>
       \<not> overall_pass vr \<and> \<not> skipRegen \<and> st_iteration st < maxIterations cfg \<and>
       refinePrompt (config_error w) (st_currentPrompt st) (or_empty (issues vr))
          (or_empty (suggestions vr)) (criteria_scores vr) (refiner env (st_pass st)) = Inr refined \<and>
       editImage (editor env (st_pass st)) = Inr url \<and>
       downloader env (st_pass st) = Inr img \<and>
       st' = st\<lparr>st_image := img,
                st_promptData := refined_record st vr refined,
                st_currentPrompt := refined,
                st_iteration := st_iteration st + 1,
                st_pass := st_pass st + 1,
                st_events := st_events st @
                  [Validating (st_iteration st) (st_promptData st), JudgeCall (st_currentPrompt st),
                   RefineCall (st_currentPrompt st), GenerateCall refined, DownloadCall url,
                   SavePrompt (refined_record st vr refined)]\<rparr>"
proof -
  let ?st1 = "st\<lparr>st_events := st_events st @
                  [Validating (st_iteration st) (st_promptData st), JudgeCall (st_currentPrompt st)]\<rparr>"
  from assms obtain vr where
    vr: "validateImage (config_error w) (judge env (st_pass st)) = Inr vr"
      "\<not> overall_pass vr" "\<not> skipRegen" "st_iteration st < maxIterations cfg"
    and rg: "regenerate w env ?st1 vr = Continue st'"
    by (auto simp: loop_pass_def Let_def split: sum.splits if_splits)
  from regenerate_cases [OF rg] vr show ?thesis
    by (auto simp: refined_record_def)
qed

lemma loop_pass_Return_D:
  assumes "loop_pass cfg w env skipRegen st = Return r st'"
  shows "\<exists>evs. status r \<in> {Approved, Flagged, Error} \<and>
       st' = st\<lparr>st_validation := (case validation r of None \<Rightarrow> st_validation st | Some vd \<Rightarrow> Some vd),
                st_events := st_events st @
                  [Validating (st_iteration st) (st_promptData st), JudgeCall (st_currentPrompt st)] @ evs\<rparr> \<and>
       (\<forall>e \<in> set evs. is_service_call e \<or> is_write_validation e) \<and>
       (\<forall>vd. validation r = Some vd \<longrightarrow>
           iteration vd = st_iteration st \<and> prompt_used vd = st_currentPrompt st \<and>
           WriteValidation vd \<in> set evs) \<and>
       (\<forall>vd. WriteValidation vd \<in> set evs \<longrightarrow> validation r = Some vd)"
proof -
  let ?st1 = "st\<lparr>st_events := st_events st @
                  [Validating (st_iteration st) (st_promptData st), JudgeCall (st_currentPrompt st)]\<rparr>"
  consider (err) msg where "validateImage (config_error w) (judge env (st_pass st)) = Inl msg"
    | (pass) vr where "validateImage (config_error w) (judge env (st_pass st)) = Inr vr" "overall_pass vr"
    | (flag) vr where "validateImage (config_error w) (judge env (st_pass st)) = Inr vr"
         "\<not> overall_pass vr" "skipRegen \<or> maxIterations cfg \<le> st_iteration st"
    | (regen) vr where "validateImage (config_error w) (judge env (st_pass st)) = Inr vr"
         "\<not> overall_pass vr" "\<not> (skipRegen \<or> maxIterations cfg \<le> st_iteration st)"
    by (cases "validateImage (config_error w) (judge env (st_pass st))") auto
  then show ?thesis
  proof cases
    case err
    with assms show ?thesis
      by (intro exI[of _ "[]"]) (auto simp: loop_pass_def Let_def)
  next
    case pass
    with assms show ?thesis
      by (intro exI[of _ "[WriteValidation (spread vr (st_iteration st) (st_currentPrompt st) None (error vr))]"])
         (auto simp: loop_pass_def Let_def spread_def)
  next
    case flag
    with assms show ?thesis
      by (intro exI[of _ "[WriteValidation (spread vr (st_iteration st) (st_currentPrompt st) (Some Flagged) (error vr))]"])
         (auto simp: loop_pass_def Let_def spread_def)
  next
    case regen
    with assms have rg: "regenerate w env ?st1 vr = Return r st'"
      by (auto simp: loop_pass_def Let_def)
    from regenerate_Return [OF rg] obtain msg evs where
      h: "status r = Error" "message r = Some msg"
         "validation r = Some (spread vr (st_iteration st) (st_currentPrompt st) (Some Error) (Some msg))"
         "st' = ?st1\<lparr>st_validation := validation r,
                st_events := st_events ?st1 @ evs @ [WriteValidation (spread vr (st_iteration st) (st_currentPrompt st)
                   (Some Error) (Some msg))]\<rparr>"
         "\<forall>e \<in> set evs. is_service_call e"
      by auto
    show ?thesis
      apply (rule exI[of _ "evs @ [WriteValidation (spread vr (st_iteration st) (st_currentPrompt st) (Some Error) (Some msg))]"])
      using h by (auto simp: spread_def)
  qed
qed

lemma validate_loop_rule:
  assumes init: "I st"
    and step: "\<And>s s'. I s \<Longrightarrow> st_iteration s \<le> maxIterations cfg \<Longrightarrow>
                  loop_pass cfg w env skipRegen s = Continue s' \<Longrightarrow> I s'"
    and ret: "\<And>s r s'. I s \<Longrightarrow> st_iteration s \<le> maxIterations cfg \<Longrightarrow>
                  loop_pass cfg w env skipRegen s = Return r s' \<Longrightarrow> Q r s'"
    and exit: "\<And>s. I s \<Longrightarrow> \<not> st_iteration s \<le> maxIterations cfg \<Longrightarrow>
                  Q \<lparr>status = Error, message = Some ''Unexpected end of validation loop'',
                      validation = None\<rparr> s"
  shows "Q (fst (validate_loop cfg w env skipRegen st)) (snd (validate_loop cfg w env skipRegen st))"
  using assms
proof (induction cfg w env skipRegen st rule: validate_loop.induct)
  case (1 cfg w env skipRegen st)
  note init = "1.prems"(1) and step = "1.prems"(2) and ret = "1.prems"(3) and exit = "1.prems"(4)
  show ?case
  proof (cases "st_iteration st \<le> maxIterations cfg")
    case False
    then have eq: "validate_loop cfg w env skipRegen st =
        (\<lparr>status = Error, message = Some ''Unexpected end of validation loop'',
          validation = None\<rparr>, st)"
      by (subst validate_loop.simps) simp
    from exit [OF init False] show ?thesis
      unfolding eq by simp
  next
    case True
    show ?thesis
    proof (cases "loop_pass cfg w env skipRegen st")
      case (Continue s')
      from step [OF init True Continue] have "I s'" .
      from True Continue have eq: "validate_loop cfg w env skipRegen st =
          validate_loop cfg w env skipRegen s'"
        by (subst validate_loop.simps) simp
      have "Q (fst (validate_loop cfg w env skipRegen s')) (snd (validate_loop cfg w env skipRegen s'))"
        by (rule "1.IH" [OF True Continue \<open>I s'\<close>])
           ((rule step; assumption) | (rule ret; assumption) | (rule exit; assumption))+
      then show ?thesis
        unfolding eq .
    next
      case (Return r s')
      from True Return have eq: "validate_loop cfg w env skipRegen st = (r, s')"
        by (subst validate_loop.simps) simp
      from ret [OF init True Return] show ?thesis
        unfolding eq by simp
    qed
  qed
qed

lemma validating_iterations_append:
  "validating_iterations (xs @ ys) = validating_iterations xs @ validating_iterations ys"
  by (induction xs rule: validating_iterations.induct) simp_all

lemma validating_iterations_other:
  "\<forall>e \<in> set evs. is_service_call e \<or> is_write_validation e \<Longrightarrow> validating_iterations evs = []"
  by (induction evs rule: validating_iterations.induct) auto

lemma validateShot_shape:
  "(image_png shot = None \<and>
      validateShot cfg w shot skipRegen =
        \<lparr>result = \<lparr>status = No_image, message = Some ''No image.png found in shot folder'',
                    validation = None\<rparr>, after = shot, events = []\<rparr>) \<or>
   (image_png shot \<noteq> None \<and>
      (\<exists>msg. validateShot cfg w shot skipRegen =
        \<lparr>result = \<lparr>status = Error, message = Some msg, validation = None\<rparr>,
         after = shot, events = []\<rparr>)) \<or>
   (\<exists>img pd. image_png shot = Some img \<and> prompt_json shot = PromptFile pd \<and>
      accessible w (anchor_abs w (anchor_image pd)) \<and>
      validateShot cfg w shot skipRegen =
        \<lparr>result = fst (validate_loop cfg w shot skipRegen (initial_state shot pd img)),
         after = shot\<lparr>prompt_json := PromptFile (st_promptData
                         (snd (validate_loop cfg w shot skipRegen (initial_state shot pd img)))),
                      image_png := Some (st_image
                         (snd (validate_loop cfg w shot skipRegen (initial_state shot pd img)))),
                      validation_json := st_validation
                         (snd (validate_loop cfg w shot skipRegen (initial_state shot pd img)))\<rparr>,
         events = st_events (snd (validate_loop cfg w shot skipRegen (initial_state shot pd img)))\<rparr>)"
  by (auto simp: validateShot_def getAnchorPath_def Let_def split_beta
           split: option.splits prompt_file.splits)

lemma other_events:
  assumes "\<forall>e \<in> set evs. is_service_call e \<or> is_write_validation e"
  shows "Validating i d \<notin> set evs" and "SavePrompt d \<notin> set evs" and "JudgeCall p \<notin> set evs"
  using assms by fastforce+

lemma viter_refined_record: "viter (refined_record st vr refined) = st_iteration st + 1"
  by (simp add: viter_def refined_record_def)

lemma history_length_refined_record:
  "history_length (refined_record st vr refined) = history_length (st_promptData st) + 1"
  by (simp add: history_length_def refined_record_def or_empty_def)

lemma bounded_state_Continue:
  assumes "bounded_state (maxIterations cfg) s"
    and "loop_pass cfg w env skipRegen s = Continue s'"
  shows "bounded_state (maxIterations cfg) s'"
proof -
  from loop_pass_Continue_D [OF assms(2)] obtain vr refined url img where
    lt: "st_iteration s < maxIterations cfg"
    and s': "s' = s\<lparr>st_image := img,
                st_promptData := refined_record s vr refined,
                st_currentPrompt := refined,
                st_iteration := st_iteration s + 1,
                st_pass := st_pass s + 1,
                st_events := st_events s @
                  [Validating (st_iteration s) (st_promptData s), JudgeCall (st_currentPrompt s),
                   RefineCall (st_currentPrompt s), GenerateCall refined, DownloadCall url,
                   SavePrompt (refined_record s vr refined)]\<rparr>"
    by blast
  have vi: "validating_iterations (st_events s') =
      validating_iterations (st_events s) @ [st_iteration s]"
    by (simp add: s' validating_iterations_append)
  from assms(1) have old: "sorted (validating_iterations (st_events s))"
    "\<forall>i \<in> set (validating_iterations (st_events s)). i \<le> st_iteration s"
    "\<forall>vd. WriteValidation vd \<in> set (st_events s) \<longrightarrow> iteration vd \<le> maxIterations cfg"
    by (simp_all add: bounded_state_def)
  have "sorted (validating_iterations (st_events s'))"
    unfolding vi using old(1,2) by (simp add: sorted_append)
  moreover have "\<forall>i \<in> set (validating_iterations (st_events s')). i \<le> st_iteration s'"
    unfolding vi using old(2) by (auto simp: s')
  moreover have "\<forall>vd. WriteValidation vd \<in> set (st_events s') \<longrightarrow> iteration vd \<le> maxIterations cfg"
    using old(3) by (simp add: s')
  moreover have "st_iteration s' \<le> maxIterations cfg" "viter (st_promptData s') = st_iteration s'"
    using lt by (simp_all add: s' viter_refined_record)
  ultimately show ?thesis
    by (simp add: bounded_state_def)
qed

lemma bounded_state_Return:
  assumes "bounded_state (maxIterations cfg) s"
    and "loop_pass cfg w env skipRegen s = Return r s'"
  shows "bounded_state (maxIterations cfg) s' \<and>
         (\<forall>vd. validation r = Some vd \<longrightarrow> iteration vd \<le> maxIterations cfg)"
proof -
  from loop_pass_Return_D [OF assms(2)] obtain evs where
    s': "s' = s\<lparr>st_validation := (case validation r of None \<Rightarrow> st_validation s | Some vd \<Rightarrow> Some vd),
            st_events := st_events s @
               [Validating (st_iteration s) (st_promptData s), JudgeCall (st_currentPrompt s)] @ evs\<rparr>"
    and evs: "\<forall>e \<in> set evs. is_service_call e \<or> is_write_validation e"
    and val: "\<forall>vd. validation r = Some vd \<longrightarrow> iteration vd = st_iteration s"
    and wr: "\<forall>vd. WriteValidation vd \<in> set evs \<longrightarrow> validation r = Some vd"
    by blast
  from assms(1) have old: "st_iteration s \<le> maxIterations cfg"
    "viter (st_promptData s) = st_iteration s"
    "sorted (validating_iterations (st_events s))"
    "\<forall>i \<in> set (validating_iterations (st_events s)). i \<le> st_iteration s"
    "\<forall>vd. WriteValidation vd \<in> set (st_events s) \<longrightarrow> iteration vd \<le> maxIterations cfg"
    by (simp_all add: bounded_state_def)
  have f: "st_events s' = st_events s @
               [Validating (st_iteration s) (st_promptData s), JudgeCall (st_currentPrompt s)] @ evs"
    "st_iteration s' = st_iteration s" "st_promptData s' = st_promptData s"
    by (simp_all add: s')
  have vi: "validating_iterations (st_events s') =
      validating_iterations (st_events s) @ [st_iteration s]"
    by (simp add: f validating_iterations_append validating_iterations_other [OF evs])
  have "sorted (validating_iterations (st_events s'))"
    unfolding vi using old(3,4) by (simp add: sorted_append)
  moreover have "\<forall>i \<in> set (validating_iterations (st_events s')). i \<le> st_iteration s'"
    unfolding vi f(2) using old(4) by auto
  moreover have "\<forall>vd. WriteValidation vd \<in> set (st_events s') \<longrightarrow> iteration vd \<le> maxIterations cfg"
  proof (intro allI impI)
    fix vd assume "WriteValidation vd \<in> set (st_events s')"
    then consider "WriteValidation vd \<in> set (st_events s)" | "WriteValidation vd \<in> set evs"
      unfolding f(1) by auto
    then show "iteration vd \<le> maxIterations cfg"
    proof cases
      case 1
      with old(5) show ?thesis by blast
    next
      case 2
      with wr val old(1) show ?thesis by simp
    qed
  qed
  moreover have "st_iteration s' \<le> maxIterations cfg" "viter (st_promptData s') = st_iteration s'"
    using old(1,2) by (simp_all add: f)
  moreover have "\<forall>vd. validation r = Some vd \<longrightarrow> iteration vd \<le> maxIterations cfg"
    using val old(1) by simp
  ultimately show ?thesis
    by (simp add: bounded_state_def)
qed

lemma loop_bounded:
  assumes "bounded_state (maxIterations cfg) st"
  shows "bounded_state (maxIterations cfg) (snd (validate_loop cfg w env skipRegen st)) \<and>
         (\<forall>vd. validation (fst (validate_loop cfg w env skipRegen st)) = Some vd \<longrightarrow>
             iteration vd \<le> maxIterations cfg)"
proof (rule validate_loop_rule [where I = "bounded_state (maxIterations cfg)"
        and Q = "\<lambda>r s. bounded_state (maxIterations cfg) s \<and>
           (\<forall>vd. validation r = Some vd \<longrightarrow> iteration vd \<le> maxIterations cfg)"], goal_cases)
  case 1
  show ?case by (rule assms)
next
  case (2 s s')
  show ?case by (rule bounded_state_Continue [OF 2(1,3)])
next
  case (3 s r s')
  show ?case by (rule bounded_state_Return [OF 3(1,3)])
next
  case (4 s)
  then show ?case by (simp add: bounded_state_def)
qed

lemma consistent_state_Continue:
  assumes "consistent_state s"
    and "loop_pass cfg w env skipRegen s = Continue s'"
  shows "consistent_state s'"
proof -
  from loop_pass_Continue_D [OF assms(2)] obtain vr refined url img where
    s': "s' = s\<lparr>st_image := img,
                st_promptData := refined_record s vr refined,
                st_currentPrompt := refined,
                st_iteration := st_iteration s + 1,
                st_pass := st_pass s + 1,
                st_events := st_events s @
                  [Validating (st_iteration s) (st_promptData s), JudgeCall (st_currentPrompt s),
                   RefineCall (st_currentPrompt s), GenerateCall refined, DownloadCall url,
                   SavePrompt (refined_record s vr refined)]\<rparr>"
    by blast
  have f: "st_events s' = st_events s @
                  [Validating (st_iteration s) (st_promptData s), JudgeCall (st_currentPrompt s),
                   RefineCall (st_currentPrompt s), GenerateCall refined, DownloadCall url,
                   SavePrompt (refined_record s vr refined)]"
    "st_iteration s' = st_iteration s + 1" "st_promptData s' = refined_record s vr refined"
    by (simp_all add: s')
  from assms(1) have old: "history_length (st_promptData s) = st_iteration s"
    "viter (st_promptData s) = st_iteration s"
    "\<forall>i d. Validating i d \<in> set (st_events s) \<longrightarrow> history_length d = i \<and> viter d = i"
    "\<forall>d. SavePrompt d \<in> set (st_events s) \<longrightarrow> history_length d = viter d"
    by (simp_all add: consistent_state_def)
  have new: "history_length (refined_record s vr refined) = viter (refined_record s vr refined)"
    by (simp add: history_length_refined_record viter_refined_record old(1))
  have "\<forall>i d. Validating i d \<in> set (st_events s') \<longrightarrow> history_length d = i \<and> viter d = i"
    unfolding f(1) using old(1,2,3) by auto
  moreover have "\<forall>d. SavePrompt d \<in> set (st_events s') \<longrightarrow> history_length d = viter d"
    unfolding f(1) using old(4) new by auto
  moreover have "history_length (st_promptData s') = st_iteration s'"
    "viter (st_promptData s') = st_iteration s'"
    by (simp_all add: f history_length_refined_record viter_refined_record old(1))
  ultimately show ?thesis
    by (simp add: consistent_state_def)
qed

lemma consistent_state_Return:
  assumes "consistent_state s"
    and "loop_pass cfg w env skipRegen s = Return r s'"
  shows "consistent_state s' \<and>
         (\<forall>vd. validation r = Some vd \<longrightarrow> iteration vd = history_length (st_promptData s'))"
proof -
  from loop_pass_Return_D [OF assms(2)] obtain evs where
    s': "s' = s\<lparr>st_validation := (case validation r of None \<Rightarrow> st_validation s | Some vd \<Rightarrow> Some vd),
            st_events := st_events s @
               [Validating (st_iteration s) (st_promptData s), JudgeCall (st_currentPrompt s)] @ evs\<rparr>"
    and evs: "\<forall>e \<in> set evs. is_service_call e \<or> is_write_validation e"
    and val: "\<forall>vd. validation r = Some vd \<longrightarrow> iteration vd = st_iteration s"
    by blast
  have f: "st_events s' = st_events s @
               [Validating (st_iteration s) (st_promptData s), JudgeCall (st_currentPrompt s)] @ evs"
    "st_iteration s' = st_iteration s" "st_promptData s' = st_promptData s"
    by (simp_all add: s')
  from assms(1) have old: "history_length (st_promptData s) = st_iteration s"
    "viter (st_promptData s) = st_iteration s"
    "\<forall>i d. Validating i d \<in> set (st_events s) \<longrightarrow> history_length d = i \<and> viter d = i"
    "\<forall>d. SavePrompt d \<in> set (st_events s) \<longrightarrow> history_length d = viter d"
    by (simp_all add: consistent_state_def)
  have "\<forall>i d. Validating i d \<in> set (st_events s') \<longrightarrow> history_length d = i \<and> viter d = i"
    unfolding f(1) using old(1,2,3) other_events(1) [OF evs] by auto
  moreover have "\<forall>d. SavePrompt d \<in> set (st_events s') \<longrightarrow> history_length d = viter d"
    unfolding f(1) using old(4) other_events(2) [OF evs] by auto
  moreover have "history_length (st_promptData s') = st_iteration s'"
    "viter (st_promptData s') = st_iteration s'"
    by (simp_all add: f old)
  moreover have "\<forall>vd. validation r = Some vd \<longrightarrow> iteration vd = history_length (st_promptData s')"
    using val by (simp add: f old(1))
  ultimately show ?thesis
    by (simp add: consistent_state_def)
qed

lemma loop_consistent:
  assumes "consistent_state st"
  shows "consistent_state (snd (validate_loop cfg w env skipRegen st)) \<and>
         (\<forall>vd. validation (fst (validate_loop cfg w env skipRegen st)) = Some vd \<longrightarrow>
             iteration vd = history_length (st_promptData (snd (validate_loop cfg w env skipRegen st))))"
proof (rule validate_loop_rule [where I = consistent_state
        and Q = "\<lambda>r s. consistent_state s \<and>
           (\<forall>vd. validation r = Some vd \<longrightarrow> iteration vd = history_length (st_promptData s))"],
       goal_cases)
  case 1
  show ?case by (rule assms)
next
  case (2 s s')
  show ?case by (rule consistent_state_Continue [OF 2(1,3)])
next
  case (3 s r s')
  show ?case by (rule consistent_state_Return [OF 3(1,3)])
next
  case (4 s)
  then show ?case by simp
qed

lemma loop_pass_failed_validation:
  assumes "validateImage (config_error w) (judge env (st_pass st)) = Inr vr"
    and "\<not> overall_pass vr" and "\<not> skipRegen" and "st_iteration st < maxIterations cfg"
  shows "loop_pass cfg w env skipRegen st =
     regenerate w env (st\<lparr>st_events := st_events st @
        [Validating (st_iteration st) (st_promptData st), JudgeCall (st_currentPrompt st)]\<rparr>) vr"
  using assms by (simp add: loop_pass_def Let_def)

lemma regenerate_success:
  assumes "refinePrompt (config_error w) (st_currentPrompt st) (or_empty (issues vr))
          (or_empty (suggestions vr)) (criteria_scores vr) (refiner env (st_pass st)) = Inr refined"
    and "accessible w (anchor_abs w (anchor_image (st_promptData st)))"
    and "editImage (editor env (st_pass st)) = Inr url"
    and "downloader env (st_pass st) = Inr img"
  shows "regenerate w env st vr =
     Continue (st\<lparr>st_image := img,
                st_promptData := refined_record st vr refined,
                st_currentPrompt := refined,
                st_iteration := st_iteration st + 1,
                st_pass := st_pass st + 1,
                st_events := st_events st @ [RefineCall (st_currentPrompt st), GenerateCall refined,
                   DownloadCall url, SavePrompt (refined_record st vr refined)]\<rparr>)"
  using assms
  by (simp add: regenerate_def getAnchorDataUrl_def getAnchorPath_def Let_def refined_record_def)

lemma regenerate_edit_fails:
  assumes "refinePrompt (config_error w) (st_currentPrompt st) (or_empty (issues vr))
          (or_empty (suggestions vr)) (criteria_scores vr) (refiner env (st_pass st)) = Inr refined"
    and "accessible w (anchor_abs w (anchor_image (st_promptData st)))"
    and "editImage (editor env (st_pass st)) = Inl msg"
  shows "regenerate w env st vr =
     regen_failed st vr (st_events st @ [RefineCall (st_currentPrompt st), GenerateCall refined]) msg"
  using assms
  by (simp add: regenerate_def getAnchorDataUrl_def getAnchorPath_def Let_def)

lemma regenerate_download_fails:
  assumes "refinePrompt (config_error w) (st_currentPrompt st) (or_empty (issues vr))
          (or_empty (suggestions vr)) (criteria_scores vr) (refiner env (st_pass st)) = Inr refined"
    and "accessible w (anchor_abs w (anchor_image (st_promptData st)))"
    and "editImage (editor env (st_pass st)) = Inr url"
    and "downloader env (st_pass st) = Inl msg"
  shows "regenerate w env st vr =
     regen_failed st vr (st_events st @ [RefineCall (st_currentPrompt st), GenerateCall refined,
        DownloadCall url]) msg"
  using assms
  by (simp add: regenerate_def getAnchorDataUrl_def getAnchorPath_def Let_def)

lemma loop_pass_flagged:
  assumes "validateImage (config_error w) (judge env (st_pass st)) = Inr vr"
    and "\<not> overall_pass vr" and "skipRegen \<or> maxIterations cfg \<le> st_iteration st"
  shows "pass_kind (loop_pass cfg w env skipRegen st) = (Some Flagged, st_iteration st)"
  using assms by (auto simp: loop_pass_def Let_def)

lemma pass_kind_regen_failed: "pass_kind (regen_failed st vr evs msg) = (Some Error, st_iteration st)"
  by (simp add: regen_failed_def Let_def)

lemma pass_kind_regenerate:
  assumes "refiner env' = refiner env" and "editor env' = editor env"
    and "downloader env' = downloader env"
  shows "pass_kind (regenerate w env st vr) = pass_kind (regenerate w env' st vr')"
proof (cases "config_error w")
  case (Some e)
  then show ?thesis
    by (simp add: regenerate_def refinePrompt_def Let_def pass_kind_regen_failed)
next
  case None
  then have r: "\<And>a b c a' b' c'.
      refinePrompt (config_error w) (st_currentPrompt st) a b c (refiner env (st_pass st)) =
      refinePrompt (config_error w) (st_currentPrompt st) a' b' c' (refiner env (st_pass st))"
    by (simp add: refinePrompt_def)
  show ?thesis
    unfolding regenerate_def Let_def assms
    by (subst r [of _ _ _ "or_empty (issues vr')" "or_empty (suggestions vr')" "criteria_scores vr'"])
       (simp add: pass_kind_regen_failed split: sum.splits)
qed

lemma bucket_add_result:
  "bucket st (add_result rs item) =
     (if status (snd item) = st then bucket st rs @ [item] else bucket st rs)"
  by (cases st; cases "status (snd item)") (simp_all add: add_result_def)

lemma bucket_foldl_add_result:
  "bucket st (foldl add_result rs items) = bucket st rs @ filter (\<lambda>i. status (snd i) = st) items"
  by (induction items arbitrary: rs) (simp_all add: bucket_add_result)

lemma process_shots_eq:
  "process_shots cfg w skipRegen shot_list rs runs =
     (foldl add_result rs (map (\<lambda>s. (shot_id s, result (validateShot cfg w s skipRegen))) shot_list),
      runs @ map (\<lambda>s. validateShot cfg w s skipRegen) shot_list)"
  by (induction shot_list arbitrary: rs runs) (simp_all add: Let_def)

lemma status_partition:
  "length (filter (\<lambda>i. f i = Approved) xs) + length (filter (\<lambda>i. f i = Flagged) xs) +
   length (filter (\<lambda>i. f i = Rejected) xs) + length (filter (\<lambda>i. f i = No_image) xs) +
   length (filter (\<lambda>i. f i = Error) xs) = length xs"
proof (induction xs)
  case Nil
  show ?case by simp
next
  case (Cons x xs)
  then show ?case by (cases "f x") simp_all
qed

lemma validateExercise_Inr:
  assumes "validateExercise cfg w name skipRegen = Inr run"
  shows "\<exists>ex. find (\<lambda>e. ex_name e = name) (or_empty (video_scripts w)) = Some ex \<and>
     getShotFolders w ex \<noteq> [] \<and>
     results run = foldl add_result empty_results
        (map (\<lambda>s. (shot_id s, result (validateShot cfg w s skipRegen))) (getShotFolders w ex)) \<and>
     shot_runs run = map (\<lambda>s. validateShot cfg w s skipRegen) (getShotFolders w ex) \<and>
     summary run = generateValidationSummary name (results run) (length (getShotFolders w ex))"
proof (cases "find (\<lambda>e. ex_name e = name) (or_empty (video_scripts w))")
  case None
  with assms show ?thesis by (simp add: validateExercise_def)
next
  case (Some ex)
  with assms have ne: "getShotFolders w ex \<noteq> []"
    by (auto simp: validateExercise_def Let_def split: if_splits)
  with assms Some have "run = \<lparr>results = foldl add_result empty_results
        (map (\<lambda>s. (shot_id s, result (validateShot cfg w s skipRegen))) (getShotFolders w ex)),
      summary = generateValidationSummary name (foldl add_result empty_results
        (map (\<lambda>s. (shot_id s, result (validateShot cfg w s skipRegen))) (getShotFolders w ex)))
        (length (getShotFolders w ex)),
      shot_runs = map (\<lambda>s. validateShot cfg w s skipRegen) (getShotFolders w ex)\<rparr>"
    by (simp add: validateExercise_def Let_def process_shots_eq)
  with Some ne show ?thesis by simp
qed

lemma run_exercises_eq:
  "run_exercises w skipRegen exercises all = all @ map (run_exercise w skipRegen) exercises"
  by (induction exercises arbitrary: all) simp_all

lemma total_of_zero:
  "total_of f rs = 0 \<longleftrightarrow> (\<forall>r \<in> set rs. is_success r \<longrightarrow> f (counts (summary_of r)) = 0)"
  by (induction f rs rule: total_of.induct) auto

lemmas batch_defs = judge_down_def squat_exercise_def row_exercise_def curl_exercise_def
  batch_world_def curl_world_def

lemmas exercise_defs = validateExercise_def getShotFolders_def sort_by_def
  generateValidationSummary_def flagged_issues_def add_result_def empty_results_def
  run_exercise_def run_all_def main_def exit1_def

lemma summary_counts:
  "bucket st (counts (generateValidationSummary name rs n)) = length (bucket st rs)"
  by (cases st) (simp_all add: generateValidationSummary_def Let_def)

lemma summary_ready:
  "ready_for_assembly (generateValidationSummary name rs n) \<longleftrightarrow>
     length (flagged rs) = 0 \<and> length (rejected rs) = 0 \<and> length (errors rs) = 0 \<and>
     length (no_image rs) = 0 \<and> length (approved rs) = n"
  by (simp add: generateValidationSummary_def Let_def)

lemma summary_total: "total_shots (generateValidationSummary name rs n) = n"
  by (simp add: generateValidationSummary_def Let_def)

lemma bucket_empty_results: "bucket st empty_results = []"
  by (cases st) (simp_all add: empty_results_def)

lemma exercise_buckets:
  assumes "validateExercise cfg w name skipRegen = Inr run"
  shows "\<exists>ex. find (\<lambda>e. ex_name e = name) (or_empty (video_scripts w)) = Some ex \<and>
     getShotFolders w ex \<noteq> [] \<and>
     shot_runs run = map (\<lambda>s. validateShot cfg w s skipRegen) (getShotFolders w ex) \<and>
     total_shots (summary run) = length (getShotFolders w ex) \<and>
     (\<forall>st. bucket st (results run) =
        map (\<lambda>s. (shot_id s, result (validateShot cfg w s skipRegen)))
          (filter (\<lambda>s. status (result (validateShot cfg w s skipRegen)) = st) (getShotFolders w ex))) \<and>
     (\<forall>st. bucket st (counts (summary run)) =
        length (filter (\<lambda>s. status (result (validateShot cfg w s skipRegen)) = st)
          (getShotFolders w ex)))"
proof -
  from validateExercise_Inr [OF assms] obtain ex where
    f: "find (\<lambda>e. ex_name e = name) (or_empty (video_scripts w)) = Some ex"
    and ne: "getShotFolders w ex \<noteq> []"
    and rs: "results run = foldl add_result empty_results
        (map (\<lambda>s. (shot_id s, result (validateShot cfg w s skipRegen))) (getShotFolders w ex))"
    and sr: "shot_runs run = map (\<lambda>s. validateShot cfg w s skipRegen) (getShotFolders w ex)"
    and sm: "summary run = generateValidationSummary name (results run) (length (getShotFolders w ex))"
    by blast
  have b: "bucket st (results run) =
        map (\<lambda>s. (shot_id s, result (validateShot cfg w s skipRegen)))
          (filter (\<lambda>s. status (result (validateShot cfg w s skipRegen)) = st) (getShotFolders w ex))" for st
    by (simp add: rs bucket_foldl_add_result bucket_empty_results filter_map comp_def)
  have c: "bucket st (counts (summary run)) =
        length (filter (\<lambda>s. status (result (validateShot cfg w s skipRegen)) = st)
          (getShotFolders w ex))" for st
    by (simp add: sm summary_counts b)
  from f ne sr b c show ?thesis
    by (simp add: sm summary_total)
qed

lemma exit_code_run_all:
  "exit_code (run_all w skipRegen exercises) =
     (if \<forall>r \<in> set (map (run_exercise w skipRegen) exercises).
            is_success r \<and> flagged (counts (summary_of r)) = 0 \<and> errors (counts (summary_of r)) = 0
      then 0 else 1)"
proof -
  let ?all = "map (run_exercise w skipRegen) exercises"
  have "exit_code (run_all w skipRegen exercises) =
      (if total_of flagged ?all = 0 \<and> total_of errors ?all = 0 \<and> (\<forall>r \<in> set ?all. is_success r)
       then 0 else 1)"
    by (auto simp: run_all_def Let_def run_exercises_eq list_ex_iff)
  also have "\<dots> = (if \<forall>r \<in> set ?all.
            is_success r \<and> flagged (counts (summary_of r)) = 0 \<and> errors (counts (summary_of r)) = 0
      then 0 else 1)"
    unfolding total_of_zero by (intro if_cong refl) blast
  finally show ?thesis .
qed

lemma main_curl_world:
  "main curl_world [''curl''] = run_all curl_world False [''curl'']"
  by (simp add: main_def batch_defs demo_world_def Let_def)

lemma run_exercise_ok:
  "is_success (run_exercise w skipRegen name) \<and>
     flagged (counts (summary_of (run_exercise w skipRegen name))) = 0 \<and>
     errors (counts (summary_of (run_exercise w skipRegen name))) = 0 \<longleftrightarrow>
   (\<exists>run. validateExercise CONFIG w name skipRegen = Inr run \<and>
      flagged (counts (summary run)) = 0 \<and> errors (counts (summary run)) = 0)"
  by (cases "validateExercise CONFIG w name skipRegen") (simp_all add: run_exercise_def)

lemmas js_demo_defs = js_demo_shot_def reply_pass_def reply_fail_def reply_without_confidence_def
  js_squat_def js_row_def

lemmas js_run_defs = validateShot_js_def early_return_def initial_state_js_def loop_pass_js_def
  regenerate_js_def regen_failed_js_def write_and_return_def validateImage_js_def
  refinePrompt_js_def js_spread_def or_items_def

lemmas js_exercise_defs = validateExercise_js_def getShotFolders_js_def
  generateValidationSummary_js_def flagged_issues_js_def add_result_js_def empty_results_js_def
  run_exercise_js_def run_all_js_def main_js_def








text \<open>
  The two sets of definitions agree: on a well-formed shot folder the functions without
  assumptions return what the functions on well-formed inputs return, step by step
  (\<open>validateShot_js_loosen\<close> below). So the properties proved of \<open>validateShot\<close> are
  properties of the code on well-formed inputs, and the exceptions of \<open>validateShot_js\<close>
  arise only from inputs outside them.
\<close>

lemma validateImage_js_loosen:
  "validateImage_js e (loosen_reply r) = map_sum id loosen_result (validateImage e r)"
  by (cases r)
     (simp_all add: validateImage_js_def validateImage_def loosen_result_def parse_failure_def
        loosen_list_def split: option.splits)

lemma refinePrompt_js_loosen:
  "refinePrompt_js e p (or_items (loosen_list i)) (or_items (loosen_list s)) (Some cs) reply =
     refinePrompt e p (or_empty i) (or_empty s) cs reply"
  by (simp add: refinePrompt_js_def refinePrompt_def or_items_def loosen_list_def
        split: option.splits)

lemma js_spread_loosen:
  "js_spread (loosen_result vr) (int i) p s e = loosen_data (spread vr i p s e)"
  by (simp add: js_spread_def spread_def loosen_data_def loosen_result_def)

lemma loosen_state_fields:
  "jst_iteration (loosen_state s) = int (st_iteration s)"
  "jst_currentPrompt (loosen_state s) = st_currentPrompt s"
  "jst_promptData (loosen_state s) = loosen_prompt (st_promptData s)"
  "jst_image (loosen_state s) = st_image s"
  "jst_pass (loosen_state s) = st_pass s"
  "jst_events (loosen_state s) = map loosen_event (st_events s)"
  by (simp_all add: loosen_state_def)

lemma loosen_shot_fields:
  "js_judge (loosen_shot env) k = loosen_reply (judge env k)"
  "js_refiner (loosen_shot env) = refiner env"
  "js_editor (loosen_shot env) = editor env"
  "js_downloader (loosen_shot env) = downloader env"
  "js_validation_write (loosen_shot env) k = None"
  "js_prompt_write (loosen_shot env) k = None"
  by (simp_all add: loosen_shot_def)

lemma regen_failed_js_loosen:
  "regen_failed_js (loosen_shot env) (loosen_state st) (loosen_result vr) (map loosen_event evs) msg
     = loosen_pass (regen_failed st vr evs msg)"
  by (simp add: regen_failed_js_def regen_failed_def write_and_return_def loosen_shot_fields
        loosen_state_fields js_spread_loosen Let_def)
     (simp add: loosen_state_def loosen_outcome_def)

lemma loosen_result_fields:
  "js_overall_pass (loosen_result vr) = overall_pass vr"
  "js_confidence (loosen_result vr) = Some (confidence vr)"
  "js_criteria_scores (loosen_result vr) = Some (criteria_scores vr)"
  "js_issues (loosen_result vr) = loosen_list (issues vr)"
  "js_suggestions (loosen_result vr) = loosen_list (suggestions vr)"
  "js_error (loosen_result vr) = error vr"
  by (simp_all add: loosen_result_def)

lemma loosen_prompt_refined:
  "(loosen_prompt d)
     \<lparr>js_engineered_prompt := refined,
      js_validation_iteration := Some (int i + 1),
      js_prompt_history := Some (or_empty (js_prompt_history (loosen_prompt d)) @
         [JsHistoryEntry (int i) p (loosen_list is)])\<rparr>
   = loosen_prompt (d\<lparr>engineered_prompt := refined,
        validation_iteration := Some (i + 1),
        prompt_history := Some (or_empty (prompt_history d) @ [HistoryEntry i p is])\<rparr>)"
  by (simp add: loosen_prompt_def or_empty_def split: option.splits)

lemma regenerate_js_loosen:
  "regenerate_js w (loosen_shot env) (loosen_state st) (loosen_result vr)
     = loosen_pass (regenerate w env st vr)"
proof -
  let ?p = "st_currentPrompt st"
  let ?ev1 = "st_events st @ [RefineCall ?p]"
  have f: "regen_failed_js (loosen_shot env) (loosen_state st) (loosen_result vr)
        (map loosen_event (st_events st) @ map loosen_event more) msg
      = loosen_pass (regen_failed st vr (st_events st @ more) msg)" for more msg
    using regen_failed_js_loosen [of env st vr "st_events st @ more" msg] by simp
  show ?thesis
  proof (cases "refinePrompt (config_error w) ?p (or_empty (issues vr))
                (or_empty (suggestions vr)) (criteria_scores vr) (refiner env (st_pass st))")
    case (Inl msg)
    then show ?thesis
      using f [of "[RefineCall ?p]" msg]
      by (simp add: regenerate_js_def regenerate_def Let_def loosen_state_fields
            loosen_shot_fields loosen_result_fields refinePrompt_js_loosen)
  next
    case rp: (Inr refined)
    show ?thesis
    proof (cases "getAnchorDataUrl w (anchor_image (st_promptData st))")
      case (Inl msg)
      then show ?thesis
        using rp f [of "[RefineCall ?p]" msg]
        by (simp add: regenerate_js_def regenerate_def Let_def loosen_state_fields
              loosen_shot_fields loosen_result_fields refinePrompt_js_loosen loosen_prompt_def)
    next
      case an: (Inr url0)
      show ?thesis
      proof (cases "editImage (editor env (st_pass st))")
        case (Inl msg)
        then show ?thesis
          using rp an f [of "[RefineCall ?p, GenerateCall refined]" msg]
          by (simp add: regenerate_js_def regenerate_def Let_def loosen_state_fields
                loosen_shot_fields loosen_result_fields refinePrompt_js_loosen loosen_prompt_def)
      next
        case ed: (Inr url)
        show ?thesis
        proof (cases "downloader env (st_pass st)")
          case (Inl msg)
          then show ?thesis
            using rp an ed f [of "[RefineCall ?p, GenerateCall refined, DownloadCall url]" msg]
            by (simp add: regenerate_js_def regenerate_def Let_def loosen_state_fields
                  loosen_shot_fields loosen_result_fields refinePrompt_js_loosen loosen_prompt_def)
        next
          case (Inr img)
          have "js_anchor_image (loosen_prompt (st_promptData st)) = anchor_image (st_promptData st)"
            by (simp add: loosen_prompt_def)
          with Inr rp an ed show ?thesis
            by (simp add: regenerate_js_def regenerate_def Let_def loosen_state_fields
                  loosen_shot_fields loosen_result_fields refinePrompt_js_loosen
                  loosen_prompt_refined)
               (simp add: loosen_state_def)
        qed
      qed
    qed
  qed
qed

lemma loop_pass_js_loosen:
  "loop_pass_js cfg w (loosen_shot env) skipRegen (loosen_state st)
     = loosen_pass (loop_pass cfg w env skipRegen st)"
proof -
  let ?st1 = "st\<lparr>st_events := st_events st @
      [Validating (st_iteration st) (st_promptData st), JudgeCall (st_currentPrompt st)]\<rparr>"
  have st1: "(loosen_state st)\<lparr>jst_events := map loosen_event (st_events st) @
        [JsValidating (int (st_iteration st)) (loosen_prompt (st_promptData st)),
         JsJudgeCall (st_currentPrompt st)]\<rparr> = loosen_state ?st1"
    by (simp add: loosen_state_def)
  have v: "validateImage_js (config_error w) (loosen_reply (judge env (st_pass st)))
      = map_sum id loosen_result (validateImage (config_error w) (judge env (st_pass st)))"
    by (rule validateImage_js_loosen)
  show ?thesis
  proof (cases "validateImage (config_error w) (judge env (st_pass st))")
    case (Inl msg)
    then show ?thesis
      by (simp add: loop_pass_js_def loop_pass_def Let_def loosen_state_fields loosen_shot_fields v)
         (simp add: loosen_state_def loosen_outcome_def)
  next
    case (Inr vr)
    have nt: "(case loosen_list (issues vr) of Text (ch # s) \<Rightarrow> a | _ \<Rightarrow> b) = b" for a b
      by (simp add: loosen_list_def split: option.splits)
    show ?thesis
    proof (cases "overall_pass vr")
      case True
      with Inr show ?thesis
        by (simp add: loop_pass_js_def loop_pass_def Let_def loosen_state_fields loosen_shot_fields
              v loosen_result_fields write_and_return_def js_spread_loosen)
           (simp add: loosen_state_def loosen_outcome_def)
    next
      case False
      show ?thesis
      proof (cases "skipRegen \<or> maxIterations cfg \<le> st_iteration st")
        case True
        with Inr \<open>\<not> overall_pass vr\<close> show ?thesis
          by (simp add: loop_pass_js_def loop_pass_def Let_def loosen_state_fields
                loosen_shot_fields v loosen_result_fields nt write_and_return_def js_spread_loosen)
             (auto simp: loosen_state_def loosen_outcome_def)
      next
        case False
        with Inr \<open>\<not> overall_pass vr\<close> show ?thesis
          using regenerate_js_loosen [of w env ?st1 vr]
          by (simp add: loop_pass_js_def loop_pass_def Let_def loosen_state_fields
                loosen_shot_fields v loosen_result_fields nt st1)
      qed
    qed
  qed
qed

lemma validate_loop_js_loosen:
  "validate_loop_js cfg w (loosen_shot env) skipRegen (loosen_state st)
     = (Returned (loosen_outcome (fst (validate_loop cfg w env skipRegen st))),
        loosen_state (snd (validate_loop cfg w env skipRegen st)))"
proof (induction cfg w env skipRegen st rule: validate_loop.induct)
  case (1 cfg w env skipRegen st)
  show ?case
  proof (cases "st_iteration st \<le> maxIterations cfg")
    case False
    then show ?thesis
      by (subst validate_loop_js.simps, subst (1 2) validate_loop.simps)
         (simp add: loosen_state_fields loosen_outcome_def)
  next
    case True
    show ?thesis
    proof (cases "loop_pass cfg w env skipRegen st")
      case (Continue s')
      with True "1.IH" [OF True Continue] show ?thesis
        by (subst validate_loop_js.simps, subst (1 2) validate_loop.simps)
           (simp add: loosen_state_fields loop_pass_js_loosen)
    next
      case (Return r s')
      with True show ?thesis
        by (subst validate_loop_js.simps, subst (1 2) validate_loop.simps)
           (simp add: loosen_state_fields loop_pass_js_loosen)
    qed
  qed
qed

lemma validateShot_js_loosen:
  "validateShot_js cfg w (loosen_shot shot) skipRegen = loosen_run (validateShot cfg w shot skipRegen)"
proof (cases "image_png shot")
  case None
  then show ?thesis
    by (simp add: validateShot_js_def validateShot_def early_return_def loosen_run_def
          loosen_outcome_def loosen_shot_def)
next
  case (Some img)
  show ?thesis
  proof (cases "prompt_json shot")
    case NoPromptFile
    with Some show ?thesis
      by (simp add: validateShot_js_def validateShot_def early_return_def loosen_run_def
            loosen_outcome_def loosen_shot_def)
  next
    case (BadPromptFile msg)
    with Some show ?thesis
      by (simp add: validateShot_js_def validateShot_def early_return_def loosen_run_def
            loosen_outcome_def loosen_shot_def)
  next
    case (PromptFile pd)
    have i: "initial_state_js (loosen_shot shot) (loosen_prompt pd) img
        = loosen_state (initial_state shot pd img)"
      by (simp add: initial_state_js_def initial_state_def loosen_state_def loosen_prompt_def
            loosen_shot_def split: option.splits)
    have a: "js_anchor_image (loosen_prompt pd) = anchor_image pd"
      by (simp add: loosen_prompt_def)
    have s: "js_image_png (loosen_shot shot) = Some img"
      "js_prompt_json (loosen_shot shot) = JsPromptFile (loosen_prompt pd)"
      using Some PromptFile by (simp_all add: loosen_shot_def)
    show ?thesis
    proof (cases "getAnchorPath w (anchor_image pd)")
      case (Inl msg)
      with Some PromptFile show ?thesis
        by (simp add: validateShot_js_def validateShot_def early_return_def s a)
           (simp add: loosen_run_def loosen_outcome_def)
    next
      case (Inr anchorPath)
      with Some PromptFile show ?thesis
        by (simp add: validateShot_js_def validateShot_def s a i validate_loop_js_loosen split_beta)
           (simp add: loosen_run_def loosen_shot_def loosen_state_def)
    qed
  qed
qed

section \<open>The claims\<close>

subsection \<open>Approval on the first call\<close>

lemma loop_pass_approved:
  assumes "config_error w = None" and "judge env (st_pass st) = JudgeParsed j" and "j_overall_pass j"
  shows "loop_pass cfg w env skipRegen st =
     Return \<lparr>status = Approved, message = None,
              validation = Some (spread (\<lparr>success = True, overall_pass = True,
                  confidence = j_confidence j, criteria_scores = j_criteria_scores j,
                  issues = j_issues j, suggestions = j_suggestions j, error = None\<rparr>)
                  (st_iteration st) (st_currentPrompt st) None None)\<rparr>
       (st\<lparr>st_validation := Some (spread (\<lparr>success = True, overall_pass = True,
                  confidence = j_confidence j, criteria_scores = j_criteria_scores j,
                  issues = j_issues j, suggestions = j_suggestions j, error = None\<rparr>)
                  (st_iteration st) (st_currentPrompt st) None None),
           st_events := st_events st @
             [Validating (st_iteration st) (st_promptData st), JudgeCall (st_currentPrompt st),
              WriteValidation (spread (\<lparr>success = True, overall_pass = True,
                  confidence = j_confidence j, criteria_scores = j_criteria_scores j,
                  issues = j_issues j, suggestions = j_suggestions j, error = None\<rparr>)
                  (st_iteration st) (st_currentPrompt st) None None)]\<rparr>)"
  using assms by (simp add: loop_pass_def validateImage_def Let_def spread_def)

lemma validateShot_entered:
  assumes "image_png shot = Some img" and "prompt_json shot = PromptFile pd"
    and "accessible w (anchor_abs w (anchor_image pd))"
    and "validate_loop cfg w shot skipRegen (initial_state shot pd img) = (r, s)"
  shows "validateShot cfg w shot skipRegen =
     \<lparr>result = r,
      after = shot\<lparr>prompt_json := PromptFile (st_promptData s), image_png := Some (st_image s),
                   validation_json := st_validation s\<rparr>,
      events = st_events s\<rparr>"
  using assms by (simp add: validateShot_def getAnchorPath_def)

text \<open>
  Claim C9. A shot enters the loop with iteration count 0 (its image exists, its prompt
  record loads, the anchor is there, the configuration loads). If the judge's first
  reply parses to \<open>overall_pass = true\<close>, the outcome is approved with iteration 0,
  and the trace consists of the loop head, the one judge call and the write of
  \<open>validation.json\<close>: no refiner, generator or download call is made. The prompt record
  and the image are left as they were.
\<close>

theorem approved_on_first_call:
  assumes "image_png shot = Some img"
    and "prompt_json shot = PromptFile pd"
    and "validation_iteration pd = None \<or> validation_iteration pd = Some 0"
    and "accessible w (anchor_abs w (anchor_image pd))"
    and "config_error w = None"
    and "judge shot 0 = JudgeParsed j"
    and "j_overall_pass j"
  shows "\<exists>vd. result (validateShot cfg w shot skipRegen) =
              \<lparr>status = Approved, message = None, validation = Some vd\<rparr> \<and>
            iteration vd = 0 \<and>
            events (validateShot cfg w shot skipRegen) =
              [Validating 0 pd, JudgeCall (engineered_prompt pd), WriteValidation vd] \<and>
            validation_json (after (validateShot cfg w shot skipRegen)) = Some vd \<and>
            prompt_json (after (validateShot cfg w shot skipRegen)) = PromptFile pd \<and>
            image_png (after (validateShot cfg w shot skipRegen)) = Some img"
proof -
  define st0 where "st0 = initial_state shot pd img"
  define vd where "vd = spread \<lparr>success = True, overall_pass = True,
      confidence = j_confidence j, criteria_scores = j_criteria_scores j,
      issues = j_issues j, suggestions = j_suggestions j, error = None\<rparr>
      (st_iteration st0) (st_currentPrompt st0) None None"
  define s where "s = st0\<lparr>st_validation := Some vd,
      st_events := st_events st0 @
        [Validating (st_iteration st0) (st_promptData st0), JudgeCall (st_currentPrompt st0),
         WriteValidation vd]\<rparr>"
  from assms(3) have it0: "st_iteration st0 = 0"
    by (auto simp: st0_def initial_state_def)
  have fields: "st_pass st0 = 0" "st_currentPrompt st0 = engineered_prompt pd"
    "st_promptData st0 = pd" "st_image st0 = img" "st_events st0 = []"
    by (simp_all add: st0_def initial_state_def)
  from assms(6) have "judge shot (st_pass st0) = JudgeParsed j"
    by (simp add: fields)
  from loop_pass_approved [OF assms(5) this assms(7), of cfg skipRegen]
  have lp: "loop_pass cfg w shot skipRegen st0 =
      Return \<lparr>status = Approved, message = None, validation = Some vd\<rparr> s"
    by (simp add: vd_def s_def)
  have "validate_loop cfg w shot skipRegen st0 =
      (\<lparr>status = Approved, message = None, validation = Some vd\<rparr>, s)"
    by (subst validate_loop.simps) (simp add: it0 lp)
  from validateShot_entered [OF assms(1,2,4) this [unfolded st0_def]]
  have run: "validateShot cfg w shot skipRegen =
     \<lparr>result = \<lparr>status = Approved, message = None, validation = Some vd\<rparr>,
      after = shot\<lparr>prompt_json := PromptFile (st_promptData s), image_png := Some (st_image s),
                   validation_json := st_validation s\<rparr>,
      events = st_events s\<rparr>" .
  have "iteration vd = 0"
    by (simp add: vd_def spread_def it0)
  moreover have "st_events s = [Validating 0 pd, JudgeCall (engineered_prompt pd), WriteValidation vd]"
    by (simp add: s_def fields it0)
  moreover have "st_validation s = Some vd" "st_promptData s = pd" "st_image s = img"
    by (simp_all add: s_def fields)
  ultimately show ?thesis
    unfolding run by (intro exI [of _ vd]) simp
qed

theorem approved_on_first_call_witness:
  "\<exists>vd. result (validateShot CONFIG demo_world (demo_shot ''01-start'' always_pass edit_ok) False) =
          \<lparr>status = Approved, message = None, validation = Some vd\<rparr> \<and>
        iteration vd = 0 \<and>
        events (validateShot CONFIG demo_world (demo_shot ''01-start'' always_pass edit_ok) False) =
          [Validating 0 demo_prompt, JudgeCall ''p0'', WriteValidation vd]"
proof -
  let ?shot = "demo_shot ''01-start'' always_pass edit_ok"
  have h: "image_png ?shot = Some ''img0''" "prompt_json ?shot = PromptFile demo_prompt"
    "validation_iteration demo_prompt = None \<or> validation_iteration demo_prompt = Some 0"
    "accessible demo_world (anchor_abs demo_world (anchor_image demo_prompt))"
    "config_error demo_world = None"
    "judge ?shot 0 = JudgeParsed pass_json" "j_overall_pass pass_json"
    by (simp_all add: demo_defs)
  from approved_on_first_call [OF h, of CONFIG False] show ?thesis
    by (auto simp: demo_prompt_def)
qed

subsection \<open>Termination and the number of judge calls\<close>




subsection \<open>The iteration count is monotone and bounded\<close>

text \<open>
  Claim C4. For a shot whose prompt record starts at iteration count 0, whatever the
  services reply (so also when every validation fails): the counter seen at the loop
  heads never decreases and never exceeds \<open>maxIterations\<close>; the iteration recorded in
  the returned outcome and in every \<open>validation.json\<close> written is at most
  \<open>maxIterations\<close>; and so is the counter of the prompt record left behind. The
  counter is a natural number, so it is never negative.
\<close>

theorem iteration_count_monotone_and_bounded:
  assumes "prompt_json shot = PromptFile pd" and "viter pd = 0"
  shows "sorted (validating_iterations (events (validateShot cfg w shot skipRegen))) \<and>
     (\<forall>i \<in> set (validating_iterations (events (validateShot cfg w shot skipRegen))).
         i \<le> maxIterations cfg) \<and>
     (\<forall>vd. validation (result (validateShot cfg w shot skipRegen)) = Some vd \<longrightarrow>
         iteration vd \<le> maxIterations cfg) \<and>
     (\<forall>vd. WriteValidation vd \<in> set (events (validateShot cfg w shot skipRegen)) \<longrightarrow>
         iteration vd \<le> maxIterations cfg) \<and>
     (\<forall>d. prompt_json (after (validateShot cfg w shot skipRegen)) = PromptFile d \<longrightarrow>
         viter d \<le> maxIterations cfg)"
proof -
  let ?run = "validateShot cfg w shot skipRegen"
  from validateShot_shape [of shot cfg w skipRegen]
  consider (early) "result ?run = \<lparr>status = No_image,
        message = Some ''No image.png found in shot folder'', validation = None\<rparr> \<or>
        (\<exists>msg. result ?run = \<lparr>status = Error, message = Some msg, validation = None\<rparr>)"
        "after ?run = shot" "events ?run = []"
    | (loop) img pd' where "prompt_json shot = PromptFile pd'"
        "result ?run = fst (validate_loop cfg w shot skipRegen (initial_state shot pd' img))"
        "events ?run = st_events (snd (validate_loop cfg w shot skipRegen (initial_state shot pd' img)))"
        "prompt_json (after ?run) = PromptFile (st_promptData
            (snd (validate_loop cfg w shot skipRegen (initial_state shot pd' img))))"
    by (elim disjE exE conjE) simp_all
  then show ?thesis
  proof cases
    case early
    from early(1) have "validation (result ?run) = None" by auto
    with early(2,3) assms show ?thesis by simp
  next
    case (loop img pd')
    with assms(1) have [simp]: "pd' = pd" by simp
    define fin where "fin = snd (validate_loop cfg w shot skipRegen (initial_state shot pd img))"
    have "bounded_state (maxIterations cfg) (initial_state shot pd img)"
      using assms(2) by (simp add: bounded_state_def initial_state_def viter_def)
    from loop_bounded [OF this, of w shot skipRegen]
    have b: "bounded_state (maxIterations cfg) fin"
      and v: "\<forall>vd. validation (result ?run) = Some vd \<longrightarrow> iteration vd \<le> maxIterations cfg"
      using loop(2) by (simp_all add: fin_def)
    have ev: "events ?run = st_events fin" and pj: "prompt_json (after ?run) = PromptFile (st_promptData fin)"
      using loop(3,4) by (simp_all add: fin_def)
    from b have "sorted (validating_iterations (st_events fin))"
      "\<forall>i \<in> set (validating_iterations (st_events fin)). i \<le> maxIterations cfg"
      "\<forall>vd. WriteValidation vd \<in> set (st_events fin) \<longrightarrow> iteration vd \<le> maxIterations cfg"
      "viter (st_promptData fin) \<le> maxIterations cfg"
      by (auto simp: bounded_state_def)
    with v show ?thesis
      unfolding ev pj by simp
  qed
qed

text \<open>Every validation fails: the loop heads see 0, 1, 2 and the flagged outcome records 2.\<close>

theorem iteration_count_monotone_and_bounded_witness:
  "validating_iterations (events (validateShot CONFIG demo_world
       (demo_shot ''01-start'' always_fail edit_ok) False)) = [0, 1, 2] \<and>
   (\<exists>vd. validation (result (validateShot CONFIG demo_world
       (demo_shot ''01-start'' always_fail edit_ok) False)) = Some vd \<and>
       iteration vd = 2 \<and> iteration vd \<le> maxIterations CONFIG)"
proof -
  have h: "prompt_json (demo_shot ''01-start'' always_fail edit_ok) = PromptFile demo_prompt"
    "viter demo_prompt = 0"
    by (simp_all add: demo_defs viter_def)
  from iteration_count_monotone_and_bounded [OF h, of CONFIG demo_world False]
  show ?thesis
    by (simp add: demo_defs run_defs validate_loop.simps)
qed

subsection \<open>History length and iteration count\<close>

text \<open>
  Claim C8. A shot enters the loop with a prompt record in which the length of the
  history equals the iteration count (a fresh record has no counter and an empty
  history). Then at every loop head the length of the history in the record equals both
  the record's counter and the loop's own counter; every record saved has a history as
  long as its counter; and the record left behind has a history as long as its counter
  and as long as the iteration that the outcome records, for every outcome that carries
  a validation (approved, flagged, or an error of the regeneration).
\<close>

theorem history_length_is_iteration_count:
  assumes "prompt_json shot = PromptFile pd" and "history_length pd = viter pd"
  shows "(\<forall>i d. Validating i d \<in> set (events (validateShot cfg w shot skipRegen)) \<longrightarrow>
            history_length d = i \<and> viter d = i) \<and>
     (\<forall>d. SavePrompt d \<in> set (events (validateShot cfg w shot skipRegen)) \<longrightarrow>
            history_length d = viter d) \<and>
     (\<forall>d. prompt_json (after (validateShot cfg w shot skipRegen)) = PromptFile d \<longrightarrow>
            history_length d = viter d \<and>
            (\<forall>vd. validation (result (validateShot cfg w shot skipRegen)) = Some vd \<longrightarrow>
               history_length d = iteration vd))"
proof -
  let ?run = "validateShot cfg w shot skipRegen"
  from validateShot_shape [of shot cfg w skipRegen]
  consider (early) "result ?run = \<lparr>status = No_image,
        message = Some ''No image.png found in shot folder'', validation = None\<rparr> \<or>
        (\<exists>msg. result ?run = \<lparr>status = Error, message = Some msg, validation = None\<rparr>)"
        "after ?run = shot" "events ?run = []"
    | (loop) img pd' where "prompt_json shot = PromptFile pd'"
        "result ?run = fst (validate_loop cfg w shot skipRegen (initial_state shot pd' img))"
        "events ?run = st_events (snd (validate_loop cfg w shot skipRegen (initial_state shot pd' img)))"
        "prompt_json (after ?run) = PromptFile (st_promptData
            (snd (validate_loop cfg w shot skipRegen (initial_state shot pd' img))))"
    by (elim disjE exE conjE) simp_all
  then show ?thesis
  proof cases
    case early
    from early(1) have "validation (result ?run) = None" by auto
    with early(2,3) assms show ?thesis by simp
  next
    case (loop img pd')
    with assms(1) have [simp]: "pd' = pd" by simp
    define fin where "fin = snd (validate_loop cfg w shot skipRegen (initial_state shot pd img))"
    have "consistent_state (initial_state shot pd img)"
      using assms(2) by (simp add: consistent_state_def initial_state_def viter_def)
    from loop_consistent [OF this, of cfg w shot skipRegen]
    have c: "consistent_state fin"
      and v: "\<forall>vd. validation (result ?run) = Some vd \<longrightarrow>
                 iteration vd = history_length (st_promptData fin)"
      using loop(2) by (simp_all add: fin_def)
    have ev: "events ?run = st_events fin"
      and pj: "prompt_json (after ?run) = PromptFile (st_promptData fin)"
      using loop(3,4) by (simp_all add: fin_def)
    from c have "\<forall>i d. Validating i d \<in> set (st_events fin) \<longrightarrow> history_length d = i \<and> viter d = i"
      "\<forall>d. SavePrompt d \<in> set (st_events fin) \<longrightarrow> history_length d = viter d"
      "history_length (st_promptData fin) = viter (st_promptData fin)"
      by (simp_all add: consistent_state_def)
    with v show ?thesis
      unfolding ev pj by simp
  qed
qed

text \<open>
  One failed validation, then a pass: approved with iteration 1, and the record left
  behind has one history entry and the counter 1.
\<close>

theorem history_length_is_iteration_count_witness:
  "\<exists>d vd. prompt_json (after (validateShot CONFIG demo_world
        (demo_shot ''01-start'' fail_then_pass edit_ok) False)) = PromptFile d \<and>
     result (validateShot CONFIG demo_world (demo_shot ''01-start'' fail_then_pass edit_ok) False) =
        \<lparr>status = Approved, message = None, validation = Some vd\<rparr> \<and>
     history_length d = 1 \<and> viter d = 1 \<and> iteration vd = 1"
proof -
  have h: "prompt_json (demo_shot ''01-start'' fail_then_pass edit_ok) = PromptFile demo_prompt"
    "history_length demo_prompt = viter demo_prompt"
    by (simp_all add: demo_defs viter_def history_length_def or_empty_def)
  from history_length_is_iteration_count [OF h, of CONFIG demo_world False]
  show ?thesis
    by (simp add: demo_defs fail_then_pass_def run_defs validate_loop.simps
          history_length_def viter_def)
qed

subsection \<open>The refiner's fallback\<close>

text \<open>
  Claim C7. Whatever the original prompt, the issues, the suggestions and the scores
  are: if the refiner's model call throws, or answers without a text part, then
  \<open>refinePrompt\<close> returns the original prompt and raises nothing. In a pass of the loop
  whose validation failed with retries remaining, such a refiner failure is followed by
  the generator call with the unchanged prompt; when the generator and the download
  succeed the loop goes on to the next pass with the same prompt and the counter
  incremented, and no error outcome results from the refiner's failure.
\<close>

theorem refiner_failure_returns_original_prompt:
  assumes "config_error w = None"
    and "refiner env (st_pass st) = RefineThrows m \<or> refiner env (st_pass st) = RefineNoText"
    and "validateImage (config_error w) (judge env (st_pass st)) = Inr vr"
    and "\<not> overall_pass vr" and "\<not> skipRegen" and "st_iteration st < maxIterations cfg"
    and "accessible w (anchor_abs w (anchor_image (st_promptData st)))"
  shows "refinePrompt (config_error w) originalPrompt is sg cs (refiner env (st_pass st)) =
            Inr originalPrompt \<and>
         GenerateCall (st_currentPrompt st)
            \<in> set (st_events (pass_state (loop_pass cfg w env skipRegen st))) \<and>
         (\<forall>url img. editImage (editor env (st_pass st)) = Inr url \<longrightarrow>
              downloader env (st_pass st) = Inr img \<longrightarrow>
              pass_kind (loop_pass cfg w env skipRegen st) = (None, st_iteration st + 1) \<and>
              st_currentPrompt (pass_state (loop_pass cfg w env skipRegen st)) = st_currentPrompt st \<and>
              engineered_prompt (st_promptData (pass_state (loop_pass cfg w env skipRegen st)))
                = st_currentPrompt st)"
proof -
  let ?st1 = "st\<lparr>st_events := st_events st @
        [Validating (st_iteration st) (st_promptData st), JudgeCall (st_currentPrompt st)]\<rparr>"
  have rp: "\<And>p a b c. refinePrompt (config_error w) p a b c (refiner env (st_pass st)) = Inr p"
    using assms(1,2) by (auto simp: refinePrompt_def)
  have lp: "loop_pass cfg w env skipRegen st = regenerate w env ?st1 vr"
    by (rule loop_pass_failed_validation [OF assms(3-6)])
  have rp1: "refinePrompt (config_error w) (st_currentPrompt ?st1) (or_empty (issues vr))
          (or_empty (suggestions vr)) (criteria_scores vr) (refiner env (st_pass ?st1))
        = Inr (st_currentPrompt st)"
    using rp by simp
  have acc: "accessible w (anchor_abs w (anchor_image (st_promptData ?st1)))"
    using assms(7) by simp
  have gen: "GenerateCall (st_currentPrompt st)
            \<in> set (st_events (pass_state (loop_pass cfg w env skipRegen st)))"
  proof (cases "editImage (editor env (st_pass st))")
    case (Inl msg)
    then have "editImage (editor env (st_pass ?st1)) = Inl msg" by simp
    from regenerate_edit_fails [OF rp1 acc this] show ?thesis
      by (simp add: lp regen_failed_def Let_def)
  next
    case (Inr url)
    then have e: "editImage (editor env (st_pass ?st1)) = Inr url" by simp
    show ?thesis
    proof (cases "downloader env (st_pass st)")
      case (Inl msg)
      then have "downloader env (st_pass ?st1) = Inl msg" by simp
      from regenerate_download_fails [OF rp1 acc e this] show ?thesis
        by (simp add: lp regen_failed_def Let_def)
    next
      case (Inr img)
      then have "downloader env (st_pass ?st1) = Inr img" by simp
      from regenerate_success [OF rp1 acc e this] show ?thesis
        by (simp add: lp)
    qed
  qed
  have ok: "pass_kind (loop_pass cfg w env skipRegen st) = (None, st_iteration st + 1) \<and>
        st_currentPrompt (pass_state (loop_pass cfg w env skipRegen st)) = st_currentPrompt st \<and>
        engineered_prompt (st_promptData (pass_state (loop_pass cfg w env skipRegen st)))
                = st_currentPrompt st"
    if "editImage (editor env (st_pass st)) = Inr url" "downloader env (st_pass st) = Inr img"
    for url img
  proof -
    from that have "editImage (editor env (st_pass ?st1)) = Inr url"
      "downloader env (st_pass ?st1) = Inr img" by simp_all
    from regenerate_success [OF rp1 acc this] show ?thesis
      by (simp add: lp refined_record_def)
  qed
  from rp gen ok show ?thesis by blast
qed

text \<open>The refiner is down, the first validation fails: the generator is called with \<open>p0\<close>.\<close>

theorem refiner_failure_returns_original_prompt_witness:
  "refinePrompt None ''p0'' [''pose wrong''] [] [] (RefineThrows ''overloaded'') = Inr ''p0'' \<and>
   GenerateCall ''p0'' \<in> set (st_events (pass_state (loop_pass CONFIG demo_world
       ((demo_shot ''01-start'' always_fail edit_ok)\<lparr>refiner := refiner_down\<rparr>) False
       (initial_state (demo_shot ''01-start'' always_fail edit_ok) demo_prompt ''img0'')))) \<and>
   pass_kind (loop_pass CONFIG demo_world
       ((demo_shot ''01-start'' always_fail edit_ok)\<lparr>refiner := refiner_down\<rparr>) False
       (initial_state (demo_shot ''01-start'' always_fail edit_ok) demo_prompt ''img0'')) = (None, 1)"
proof -
  let ?env = "(demo_shot ''01-start'' always_fail edit_ok)\<lparr>refiner := refiner_down\<rparr>"
  let ?st = "initial_state (demo_shot ''01-start'' always_fail edit_ok) demo_prompt ''img0''"
  let ?vr = "\<lparr>success = True, overall_pass = False, confidence = 3 / 10, criteria_scores = [],
      issues = Some [''pose wrong''], suggestions = None, error = None\<rparr>"
  have h: "config_error demo_world = None"
    "refiner ?env (st_pass ?st) = RefineThrows ''overloaded'' \<or> refiner ?env (st_pass ?st) = RefineNoText"
    "validateImage (config_error demo_world) (judge ?env (st_pass ?st)) = Inr ?vr"
    "\<not> overall_pass ?vr" "\<not> False" "st_iteration ?st < maxIterations CONFIG"
    "accessible demo_world (anchor_abs demo_world (anchor_image (st_promptData ?st)))"
    by (simp_all add: demo_defs refiner_down_def initial_state_def validateImage_def)
  have e: "editImage (editor ?env (st_pass ?st)) = Inr ''https://img/new.png''"
    "downloader ?env (st_pass ?st) = Inr ''img1''"
    by (simp_all add: demo_defs initial_state_def)
  from refiner_failure_returns_original_prompt [OF h, of "''p0''" "[''pose wrong'']" "[]" "[]"] e
  show ?thesis
    by (simp add: demo_defs refiner_down_def initial_state_def)
qed

subsection \<open>When the prompt record is updated\<close>

text \<open>
  Claim C2 as stated fails. With a generator that is down, the first failed validation
  leads to the generator call and an error outcome, and the prompt record left behind
  is the one the shot came with: no history entry, no counter.
\<close>

theorem record_unchanged_when_generation_fails:
  "GenerateCall ''p1'' \<in> set (events generation_fails_run) \<and>
   status (result generation_fails_run) = Error \<and>
   prompt_json (after generation_fails_run) =
     PromptFile \<lparr>anchor_image = ''output/anchors-selected/bent.png'', engineered_prompt = ''p0'',
                 validation_iteration = None, prompt_history = Some []\<rparr>"
  by (simp add: generation_fails_run_def demo_defs run_defs validate_loop.simps)

text \<open>
  Claim C2, as the code has it. In a refinement cycle the loop calls the refiner, then
  the generator, then downloads the new image, and only then appends
  \<open>{iteration, prompt, issues}\<close> to the history, sets the prompt to the refiner's
  output, increments the counter and saves the record: in a pass that goes on to the
  next one, the save is the last event, after the generator call and the download. When
  the generator call fails, the pass returns an error outcome that records the
  iteration not incremented, and the prompt record is unchanged and not saved. No pass
  that returns an outcome changes the prompt record.
\<close>

theorem record_saved_after_generation:
  "(\<forall>s'. loop_pass cfg w env skipRegen st = Continue s' \<longrightarrow>
      (\<exists>vr refined url.
         st_events s' = st_events st @
           [Validating (st_iteration st) (st_promptData st), JudgeCall (st_currentPrompt st),
            RefineCall (st_currentPrompt st), GenerateCall refined, DownloadCall url,
            SavePrompt (st_promptData s')] \<and>
         editImage (editor env (st_pass st)) = Inr url \<and>
         st_promptData s' = refined_record st vr refined \<and>
         st_currentPrompt s' = refined \<and>
         st_iteration s' = st_iteration st + 1)) \<and>
   (\<forall>vr refined msg.
      validateImage (config_error w) (judge env (st_pass st)) = Inr vr \<longrightarrow>
      \<not> overall_pass vr \<longrightarrow> \<not> skipRegen \<longrightarrow> st_iteration st < maxIterations cfg \<longrightarrow>
      refinePrompt (config_error w) (st_currentPrompt st) (or_empty (issues vr))
          (or_empty (suggestions vr)) (criteria_scores vr) (refiner env (st_pass st)) = Inr refined \<longrightarrow>
      accessible w (anchor_abs w (anchor_image (st_promptData st))) \<longrightarrow>
      editImage (editor env (st_pass st)) = Inl msg \<longrightarrow>
        pass_kind (loop_pass cfg w env skipRegen st) = (Some Error, st_iteration st) \<and>
        st_promptData (pass_state (loop_pass cfg w env skipRegen st)) = st_promptData st \<and>
        st_events (pass_state (loop_pass cfg w env skipRegen st)) = st_events st @
           [Validating (st_iteration st) (st_promptData st), JudgeCall (st_currentPrompt st),
            RefineCall (st_currentPrompt st), GenerateCall refined,
            WriteValidation (spread vr (st_iteration st) (st_currentPrompt st) (Some Error) (Some msg))]) \<and>
   (\<forall>r s'. loop_pass cfg w env skipRegen st = Return r s' \<longrightarrow>
      st_promptData s' = st_promptData st \<and> st_iteration s' = st_iteration st \<and>
      (\<exists>evs. st_events s' = st_events st @ evs \<and> (\<forall>d. SavePrompt d \<notin> set evs)))"
proof (intro conjI allI impI)
  fix s' assume "loop_pass cfg w env skipRegen st = Continue s'"
  from loop_pass_Continue_D [OF this] obtain vr refined url img where
    e: "editImage (editor env (st_pass st)) = Inr url"
    and s': "s' = st\<lparr>st_image := img,
                st_promptData := refined_record st vr refined,
                st_currentPrompt := refined,
                st_iteration := st_iteration st + 1,
                st_pass := st_pass st + 1,
                st_events := st_events st @
                  [Validating (st_iteration st) (st_promptData st), JudgeCall (st_currentPrompt st),
                   RefineCall (st_currentPrompt st), GenerateCall refined, DownloadCall url,
                   SavePrompt (refined_record st vr refined)]\<rparr>"
    by blast
  show "\<exists>vr refined url.
         st_events s' = st_events st @
           [Validating (st_iteration st) (st_promptData st), JudgeCall (st_currentPrompt st),
            RefineCall (st_currentPrompt st), GenerateCall refined, DownloadCall url,
            SavePrompt (st_promptData s')] \<and>
         editImage (editor env (st_pass st)) = Inr url \<and>
         st_promptData s' = refined_record st vr refined \<and>
         st_currentPrompt s' = refined \<and>
         st_iteration s' = st_iteration st + 1"
    by (intro exI [of _ vr] exI [of _ refined] exI [of _ url]) (simp add: s' e)
next
  fix vr refined msg
  let ?st1 = "st\<lparr>st_events := st_events st @
        [Validating (st_iteration st) (st_promptData st), JudgeCall (st_currentPrompt st)]\<rparr>"
  assume v: "validateImage (config_error w) (judge env (st_pass st)) = Inr vr"
    "\<not> overall_pass vr" "\<not> skipRegen" "st_iteration st < maxIterations cfg"
    and rp: "refinePrompt (config_error w) (st_currentPrompt st) (or_empty (issues vr))
          (or_empty (suggestions vr)) (criteria_scores vr) (refiner env (st_pass st)) = Inr refined"
    and acc: "accessible w (anchor_abs w (anchor_image (st_promptData st)))"
    and ed: "editImage (editor env (st_pass st)) = Inl msg"
  have lp: "loop_pass cfg w env skipRegen st = regenerate w env ?st1 vr"
    by (rule loop_pass_failed_validation [OF v])
  have "regenerate w env ?st1 vr =
     regen_failed ?st1 vr (st_events ?st1 @ [RefineCall (st_currentPrompt ?st1), GenerateCall refined]) msg"
    by (rule regenerate_edit_fails) (simp_all add: rp acc ed)
  then have eq: "loop_pass cfg w env skipRegen st =
     regen_failed ?st1 vr (st_events ?st1 @ [RefineCall (st_currentPrompt ?st1), GenerateCall refined]) msg"
    by (simp only: lp)
  show "pass_kind (loop_pass cfg w env skipRegen st) = (Some Error, st_iteration st)"
    by (simp add: eq regen_failed_def Let_def)
  show "st_promptData (pass_state (loop_pass cfg w env skipRegen st)) = st_promptData st"
    by (simp add: eq regen_failed_def Let_def)
  show "st_events (pass_state (loop_pass cfg w env skipRegen st)) = st_events st @
           [Validating (st_iteration st) (st_promptData st), JudgeCall (st_currentPrompt st),
            RefineCall (st_currentPrompt st), GenerateCall refined,
            WriteValidation (spread vr (st_iteration st) (st_currentPrompt st) (Some Error) (Some msg))]"
    by (simp add: eq regen_failed_def Let_def)
next
  fix r s' assume "loop_pass cfg w env skipRegen st = Return r s'"
  from loop_pass_Return_D [OF this] obtain evs where
    s': "s' = st\<lparr>st_validation := (case validation r of None \<Rightarrow> st_validation st | Some vd \<Rightarrow> Some vd),
            st_events := st_events st @
               [Validating (st_iteration st) (st_promptData st), JudgeCall (st_currentPrompt st)] @ evs\<rparr>"
    and evs: "\<forall>e \<in> set evs. is_service_call e \<or> is_write_validation e"
    by blast
  show "st_promptData s' = st_promptData st" by (simp add: s')
  show "st_iteration s' = st_iteration st" by (simp add: s')
  show "\<exists>evs. st_events s' = st_events st @ evs \<and> (\<forall>d. SavePrompt d \<notin> set evs)"
    using other_events(2) [OF evs]
    by (intro exI [of _ "[Validating (st_iteration st) (st_promptData st),
          JudgeCall (st_currentPrompt st)] @ evs"]) (simp add: s')
qed

text \<open>
  The first pass of a shot whose validations fail: with a working generator the pass
  ends by saving the record, with a generator that is down it returns an error at
  iteration 0 and leaves the record as it was.
\<close>

theorem record_saved_after_generation_witness:
  "(\<exists>s'. loop_pass CONFIG demo_world (demo_shot ''01-start'' always_fail edit_ok) False
           (initial_state (demo_shot ''01-start'' always_fail edit_ok) demo_prompt ''img0'') = Continue s' \<and>
         last (st_events s') = SavePrompt (st_promptData s') \<and> st_iteration s' = 1) \<and>
   pass_kind (loop_pass CONFIG demo_world (demo_shot ''01-start'' always_fail edit_down) False
           (initial_state (demo_shot ''01-start'' always_fail edit_down) demo_prompt ''img0''))
      = (Some Error, 0) \<and>
   st_promptData (pass_state (loop_pass CONFIG demo_world (demo_shot ''01-start'' always_fail edit_down) False
           (initial_state (demo_shot ''01-start'' always_fail edit_down) demo_prompt ''img0'')))
      = demo_prompt"
proof -
  let ?ok = "demo_shot ''01-start'' always_fail edit_ok"
  let ?down = "demo_shot ''01-start'' always_fail edit_down"
  let ?s = "initial_state ?ok demo_prompt ''img0''"
  let ?t = "initial_state ?down demo_prompt ''img0''"
  let ?vr = "\<lparr>success = True, overall_pass = False, confidence = 3 / 10, criteria_scores = [],
      issues = Some [''pose wrong''], suggestions = None, error = None\<rparr>"
  have "\<exists>s'. loop_pass CONFIG demo_world ?ok False ?s = Continue s'"
    by (simp add: demo_defs run_defs)
  then obtain s' where c: "loop_pass CONFIG demo_world ?ok False ?s = Continue s'" ..
  with record_saved_after_generation [of CONFIG demo_world ?ok False ?s]
  obtain vr refined url where
    "st_events s' = st_events ?s @
           [Validating (st_iteration ?s) (st_promptData ?s), JudgeCall (st_currentPrompt ?s),
            RefineCall (st_currentPrompt ?s), GenerateCall refined, DownloadCall url,
            SavePrompt (st_promptData s')]"
    "st_iteration s' = st_iteration ?s + 1"
    by blast
  then have a: "last (st_events s') = SavePrompt (st_promptData s')" "st_iteration s' = 1"
    by (simp_all add: initial_state_def demo_prompt_def)
  have h: "validateImage (config_error demo_world) (judge ?down (st_pass ?t)) = Inr ?vr"
    "\<not> overall_pass ?vr" "\<not> False" "st_iteration ?t < maxIterations CONFIG"
    "refinePrompt (config_error demo_world) (st_currentPrompt ?t) (or_empty (issues ?vr))
          (or_empty (suggestions ?vr)) (criteria_scores ?vr) (refiner ?down (st_pass ?t)) = Inr ''p1''"
    "accessible demo_world (anchor_abs demo_world (anchor_image (st_promptData ?t)))"
    "editImage (editor ?down (st_pass ?t)) = Inl ''service unavailable''"
    by (simp_all add: demo_defs run_defs)
  with record_saved_after_generation [of CONFIG demo_world ?down False ?t]
  have "pass_kind (loop_pass CONFIG demo_world ?down False ?t) = (Some Error, st_iteration ?t) \<and>
        st_promptData (pass_state (loop_pass CONFIG demo_world ?down False ?t)) = st_promptData ?t"
    by blast
  then have b: "pass_kind (loop_pass CONFIG demo_world ?down False ?t) = (Some Error, 0)"
    "st_promptData (pass_state (loop_pass CONFIG demo_world ?down False ?t)) = demo_prompt"
    by (simp_all add: initial_state_def demo_prompt_def)
  from c a b show ?thesis by blast
qed

subsection \<open>An unparseable reply of the judge\<close>

text \<open>
  Claim C1 as stated fails. The judge's first reply is not JSON and its second passes:
  the loop refines the prompt, regenerates the image, and approves at iteration 1, with
  one history entry (whose issue is the parse failure) and the counter 1 in the prompt
  record. So the unparseable reply did consume an iteration and did trigger the
  refine and regenerate path.
\<close>

theorem unparseable_reply_consumes_an_iteration:
  "status (result unparseable_run) = Approved \<and>
   RefineCall ''p0'' \<in> set (events unparseable_run) \<and>
   GenerateCall ''p1'' \<in> set (events unparseable_run) \<and>
   prompt_json (after unparseable_run) =
     PromptFile \<lparr>anchor_image = ''output/anchors-selected/bent.png'', engineered_prompt = ''p1'',
        validation_iteration = Some 1,
        prompt_history = Some [HistoryEntry 0 ''p0'' (Some [''Failed to parse validation response''])]\<rparr>"
  by (simp add: unparseable_run_def unparseable_then_pass_def demo_defs run_defs validate_loop.simps)

text \<open>
  Claim C1, as the code has it. When the judge's model returns text that is not JSON,
  \<open>validateImage\<close> raises nothing: it returns a failing result (\<open>success = false\<close>,
  \<open>overall_pass = false\<close>), so the loop produces no validation error for it. The loop
  does not read \<open>success\<close>; the pass has the same kind of outcome and leaves the same
  iteration count as it does for any parsed reply with \<open>overall_pass = false\<close> and the
  same refiner, generator and download: flagged if regeneration is skipped or the
  counter has reached \<open>maxIterations\<close>, and otherwise the refine and regenerate path,
  which on success goes on to the next pass with the counter incremented.
\<close>

theorem unparseable_reply_is_a_failed_validation:
  assumes "config_error w = None"
    and "judge env (st_pass st) = JudgeUnparseable msg"
    and "judge env' (st_pass st) = JudgeParsed j" and "\<not> j_overall_pass j"
    and "refiner env' = refiner env" and "editor env' = editor env"
    and "downloader env' = downloader env"
  shows "validateImage (config_error w) (judge env (st_pass st)) = Inr (parse_failure msg) \<and>
     \<not> overall_pass (parse_failure msg) \<and> \<not> success (parse_failure msg) \<and>
     pass_kind (loop_pass cfg w env skipRegen st) = pass_kind (loop_pass cfg w env' skipRegen st) \<and>
     (skipRegen \<or> maxIterations cfg \<le> st_iteration st \<longrightarrow>
        pass_kind (loop_pass cfg w env skipRegen st) = (Some Flagged, st_iteration st)) \<and>
     (\<forall>url img. \<not> skipRegen \<longrightarrow> st_iteration st < maxIterations cfg \<longrightarrow>
        accessible w (anchor_abs w (anchor_image (st_promptData st))) \<longrightarrow>
        editImage (editor env (st_pass st)) = Inr url \<longrightarrow>
        downloader env (st_pass st) = Inr img \<longrightarrow>
          pass_kind (loop_pass cfg w env skipRegen st) = (None, st_iteration st + 1) \<and>
          RefineCall (st_currentPrompt st)
            \<in> set (st_events (pass_state (loop_pass cfg w env skipRegen st))))"
proof -
  let ?st1 = "st\<lparr>st_events := st_events st @
        [Validating (st_iteration st) (st_promptData st), JudgeCall (st_currentPrompt st)]\<rparr>"
  let ?vr' = "\<lparr>success = True, overall_pass = j_overall_pass j, confidence = j_confidence j,
       criteria_scores = j_criteria_scores j, issues = j_issues j,
       suggestions = j_suggestions j, error = None\<rparr>"
  have v: "validateImage (config_error w) (judge env (st_pass st)) = Inr (parse_failure msg)"
    using assms(1,2) by (simp add: validateImage_def)
  have v': "validateImage (config_error w) (judge env' (st_pass st)) = Inr ?vr'"
    using assms(1,3) by (simp add: validateImage_def)
  have np: "\<not> overall_pass (parse_failure msg)" "\<not> success (parse_failure msg)"
    by (simp_all add: parse_failure_def)
  have np': "\<not> overall_pass ?vr'"
    using assms(4) by simp
  have flag: "pass_kind (loop_pass cfg w env skipRegen st) = (Some Flagged, st_iteration st)"
    if "skipRegen \<or> maxIterations cfg \<le> st_iteration st"
    by (rule loop_pass_flagged [OF v np(1) that])
  have same: "pass_kind (loop_pass cfg w env skipRegen st) = pass_kind (loop_pass cfg w env' skipRegen st)"
  proof (cases "skipRegen \<or> maxIterations cfg \<le> st_iteration st")
    case True
    from loop_pass_flagged [OF v' np' True] flag [OF True] show ?thesis by simp
  next
    case False
    then have r: "\<not> skipRegen" "st_iteration st < maxIterations cfg" by auto
    have "loop_pass cfg w env skipRegen st = regenerate w env ?st1 (parse_failure msg)"
      by (rule loop_pass_failed_validation [OF v np(1) r])
    moreover have "loop_pass cfg w env' skipRegen st = regenerate w env' ?st1 ?vr'"
      by (rule loop_pass_failed_validation [OF v' np' r])
    ultimately show ?thesis
      using pass_kind_regenerate [OF assms(5-7), of w ?st1 "parse_failure msg" ?vr'] by simp
  qed
  have go: "pass_kind (loop_pass cfg w env skipRegen st) = (None, st_iteration st + 1) \<and>
          RefineCall (st_currentPrompt st)
            \<in> set (st_events (pass_state (loop_pass cfg w env skipRegen st)))"
    if r: "\<not> skipRegen" "st_iteration st < maxIterations cfg"
      and acc: "accessible w (anchor_abs w (anchor_image (st_promptData st)))"
      and e: "editImage (editor env (st_pass st)) = Inr url" "downloader env (st_pass st) = Inr img"
    for url img
  proof -
    have lp: "loop_pass cfg w env skipRegen st = regenerate w env ?st1 (parse_failure msg)"
      by (rule loop_pass_failed_validation [OF v np(1) r])
    obtain refined where rp: "refinePrompt (config_error w) (st_currentPrompt ?st1)
          (or_empty (issues (parse_failure msg))) (or_empty (suggestions (parse_failure msg)))
          (criteria_scores (parse_failure msg)) (refiner env (st_pass ?st1)) = Inr refined"
      using assms(1) by (cases "refiner env (st_pass st)") (simp_all add: refinePrompt_def)
    have "regenerate w env ?st1 (parse_failure msg) =
       Continue (?st1\<lparr>st_image := img,
                st_promptData := refined_record ?st1 (parse_failure msg) refined,
                st_currentPrompt := refined,
                st_iteration := st_iteration ?st1 + 1,
                st_pass := st_pass ?st1 + 1,
                st_events := st_events ?st1 @ [RefineCall (st_currentPrompt ?st1), GenerateCall refined,
                   DownloadCall url, SavePrompt (refined_record ?st1 (parse_failure msg) refined)]\<rparr>)"
      by (rule regenerate_success [OF rp]) (simp_all add: acc e)
    then show ?thesis
      by (simp add: lp)
  qed
  from v np same flag go show ?thesis by blast
qed

text \<open>
  The first pass on an unparseable reply and on a parsed failing reply: both go on to
  the next pass with the counter at 1.
\<close>

theorem unparseable_reply_is_a_failed_validation_witness:
  "pass_kind (loop_pass CONFIG demo_world (demo_shot ''01-start'' unparseable_then_pass edit_ok) False
      (initial_state (demo_shot ''01-start'' unparseable_then_pass edit_ok) demo_prompt ''img0''))
     = (None, 1) \<and>
   pass_kind (loop_pass CONFIG demo_world (demo_shot ''01-start'' fail_then_pass edit_ok) False
      (initial_state (demo_shot ''01-start'' unparseable_then_pass edit_ok) demo_prompt ''img0''))
     = (None, 1) \<and>
   RefineCall ''p0'' \<in> set (st_events (pass_state
     (loop_pass CONFIG demo_world (demo_shot ''01-start'' unparseable_then_pass edit_ok) False
      (initial_state (demo_shot ''01-start'' unparseable_then_pass edit_ok) demo_prompt ''img0''))))"
proof -
  let ?env = "demo_shot ''01-start'' unparseable_then_pass edit_ok"
  let ?env' = "demo_shot ''01-start'' fail_then_pass edit_ok"
  let ?s = "initial_state ?env demo_prompt ''img0''"
  have h: "config_error demo_world = None"
    "judge ?env (st_pass ?s) = JudgeUnparseable ''Unexpected token H in JSON at position 0''"
    "judge ?env' (st_pass ?s) = JudgeParsed fail_json" "\<not> j_overall_pass fail_json"
    "refiner ?env' = refiner ?env" "editor ?env' = editor ?env" "downloader ?env' = downloader ?env"
    by (simp_all add: demo_defs unparseable_then_pass_def fail_then_pass_def initial_state_def)
  have g: "\<not> False" "st_iteration ?s < maxIterations CONFIG"
    "accessible demo_world (anchor_abs demo_world (anchor_image (st_promptData ?s)))"
    "editImage (editor ?env (st_pass ?s)) = Inr ''https://img/new.png''"
    "downloader ?env (st_pass ?s) = Inr ''img1''"
    by (simp_all add: demo_defs initial_state_def)
  from unparseable_reply_is_a_failed_validation [OF h, of CONFIG False] g
  have "pass_kind (loop_pass CONFIG demo_world ?env False ?s) =
          pass_kind (loop_pass CONFIG demo_world ?env' False ?s)"
    "pass_kind (loop_pass CONFIG demo_world ?env False ?s) = (None, st_iteration ?s + 1)"
    "RefineCall (st_currentPrompt ?s)
            \<in> set (st_events (pass_state (loop_pass CONFIG demo_world ?env False ?s)))"
    by blast+
  then show ?thesis
    by (simp add: initial_state_def demo_prompt_def)
qed

subsection \<open>The readiness flag\<close>

text \<open>
  Claim C6. For every run of \<open>validateExercise\<close> that returns, the flag
  \<open>ready_for_assembly\<close> of the summary equals the specification's formula
  \<open>count(Approved) = total \<and> count(Flagged) = 0 \<and> count(Error) = 0\<close> over the
  summary's counts, and these are a reduction over the outcomes of the shots: each count
  is the number of shot runs with that status, and the total is the number of shot runs.
  (The code also requires that no shot is rejected or without image; since every shot
  lands in exactly one list, that follows from all shots being approved.)
\<close>

theorem ready_for_assembly_is_the_reduction:
  assumes "validateExercise cfg w name skipRegen = Inr run"
  shows "ready_for_assembly (summary run) =
           spec_readyForAssembly (counts (summary run)) (total_shots (summary run)) \<and>
         total_shots (summary run) = length (shot_runs run) \<and>
         (\<forall>st. bucket st (counts (summary run)) =
            length (filter (\<lambda>r. status (result r) = st) (shot_runs run)))"
proof -
  from exercise_buckets [OF assms] obtain ex where
    sr: "shot_runs run = map (\<lambda>s. validateShot cfg w s skipRegen) (getShotFolders w ex)"
    and tot: "total_shots (summary run) = length (getShotFolders w ex)"
    and cnt: "\<And>st. bucket st (counts (summary run)) =
        length (filter (\<lambda>s. status (result (validateShot cfg w s skipRegen)) = st)
          (getShotFolders w ex))"
    by blast
  from validateExercise_Inr [OF assms] obtain n where
    sm: "summary run = generateValidationSummary name (results run) n"
    by blast
  have len: "length (bucket st (results run)) = bucket st (counts (summary run))" for st
    by (simp add: sm summary_counts)
  have part: "bucket Approved (counts (summary run)) + bucket Flagged (counts (summary run)) +
      bucket Rejected (counts (summary run)) + bucket No_image (counts (summary run)) +
      bucket Error (counts (summary run)) = total_shots (summary run)"
    unfolding cnt tot
    by (rule status_partition [where f = "\<lambda>s. status (result (validateShot cfg w s skipRegen))"])
  have "ready_for_assembly (summary run) \<longleftrightarrow>
      bucket Flagged (counts (summary run)) = 0 \<and> bucket Rejected (counts (summary run)) = 0 \<and>
      bucket Error (counts (summary run)) = 0 \<and> bucket No_image (counts (summary run)) = 0 \<and>
      bucket Approved (counts (summary run)) = total_shots (summary run)"
    using len [of Flagged] len [of Rejected] len [of Error] len [of No_image] len [of Approved]
    by (simp add: sm summary_ready summary_total)
  also have "\<dots> \<longleftrightarrow> spec_readyForAssembly (counts (summary run)) (total_shots (summary run))"
    using part by (auto simp: spec_readyForAssembly_def)
  finally have ready: "ready_for_assembly (summary run) =
           spec_readyForAssembly (counts (summary run)) (total_shots (summary run))" .
  have "bucket st (counts (summary run)) =
            length (filter (\<lambda>r. status (result r) = st) (shot_runs run))" for st
    by (simp add: cnt sr filter_map comp_def)
  with ready tot sr show ?thesis by simp
qed

text \<open>
  An exercise with one shot in error and one approved is not ready, by either formula; an
  exercise whose only shot is approved is ready.
\<close>

theorem ready_for_assembly_is_the_reduction_witness:
  "(\<exists>run. validateExercise CONFIG batch_world ''squat'' False = Inr run \<and>
       \<not> ready_for_assembly (summary run) \<and>
       \<not> spec_readyForAssembly (counts (summary run)) (total_shots (summary run)) \<and>
       total_shots (summary run) = 2) \<and>
   (\<exists>run. validateExercise CONFIG batch_world ''row'' False = Inr run \<and>
       ready_for_assembly (summary run) \<and>
       spec_readyForAssembly (counts (summary run)) (total_shots (summary run)))"
proof -
  have "\<exists>run. validateExercise CONFIG batch_world ''squat'' False = Inr run \<and>
       \<not> ready_for_assembly (summary run) \<and> total_shots (summary run) = 2"
    by (simp add: batch_defs demo_defs exercise_defs run_defs validate_loop.simps)
  then obtain run where a: "validateExercise CONFIG batch_world ''squat'' False = Inr run"
    "\<not> ready_for_assembly (summary run)" "total_shots (summary run) = 2" by blast
  have "\<exists>run. validateExercise CONFIG batch_world ''row'' False = Inr run \<and>
       ready_for_assembly (summary run)"
    by (simp add: batch_defs demo_defs exercise_defs run_defs validate_loop.simps)
  then obtain run' where b: "validateExercise CONFIG batch_world ''row'' False = Inr run'"
    "ready_for_assembly (summary run')" by blast
  from ready_for_assembly_is_the_reduction [OF a(1)] ready_for_assembly_is_the_reduction [OF b(1)]
    a b show ?thesis by blast
qed

subsection \<open>Isolation of shots and of exercises\<close>

text \<open>
  Claim C5 fails on the code at the following input. The exercise \<open>squat\<close> has two
  shots. For the first the judge replies \<open>{"overall_pass": true}\<close>, valid JSON without
  a confidence; for the second it replies with a passing result. The first run throws
  a \<open>TypeError\<close> where the loop formats \<open>confidence.toFixed(2)\<close>, outside every \<open>try\<close>
  block of \<open>validateShot\<close>, and \<open>validateExercise\<close> calls \<open>validateShot\<close> outside any
  \<open>try\<close> block, so the exception ends the exercise: the second shot, which its own run
  would approve, is never run, and no summary is written. Only \<open>main\<close> catches the
  exception: the exercise is recorded as failed, the next exercise \<open>row\<close> is processed
  and approved, and the process exits with 1.
\<close>

theorem exception_of_a_shot_ends_its_exercise:
  "js_outcome (validateShot_js CONFIG demo_world
       (js_demo_shot ''01-start'' None reply_without_confidence) False)
     = Thrown ''Cannot read properties of undefined (reading toFixed)'' \<and>
   js_outcome (validateShot_js CONFIG demo_world (js_demo_shot ''02-mid'' None reply_pass) False)
     = Returned \<lparr>js_status = Approved, js_message = None,
         js_validation = Some \<lparr>js_success = True, js_overall_pass = True,
           js_confidence = Some (9 / 10), js_criteria_scores = Some [], js_issues = Items [],
           js_suggestions = Items [], js_error = None, js_iteration = 0, js_prompt_used = ''p0'',
           js_saved_status = None\<rparr>\<rparr> \<and>
   jx_outcome (validateExercise_js CONFIG demo_world [js_squat, js_row] ''squat'' False)
     = Thrown ''Cannot read properties of undefined (reading toFixed)'' \<and>
   map (\<lambda>r. js_shot_id (js_after r))
     (jx_shot_runs (validateExercise_js CONFIG demo_world [js_squat, js_row] ''squat'' False))
     = [''01-start''] \<and>
   map is_success_js (js_allResults (main_js demo_world (Some [js_squat, js_row]) [''--all'']))
     = [False, True] \<and>
   js_exit_code (main_js demo_world (Some [js_squat, js_row]) [''--all'']) = 1"
  by (simp add: js_demo_defs demo_defs js_run_defs js_exercise_defs getAnchorPath_def
        getAnchorDataUrl_def trim_def is_space_def or_empty_def sort_by_def Let_def
        validate_loop_js.simps)

subsection \<open>A shot without an image\<close>

text \<open>
  Claim C10. A shot whose folder has no \<open>image.png\<close> (with or without a prompt
  record) gets the outcome \<open>no_image\<close>, which is none of approved, flagged and error;
  nothing is called and nothing is written. An exercise with such a shot is not ready
  for assembly. The exit code does not depend on it: the batch run exits with 0 exactly
  when every exercise returns a summary without flagged shots and without shots in
  error; in particular it exits with 0 when every shot of every exercise is approved or
  without image.
\<close>

theorem missing_image_gives_no_image:
  "(image_png shot = None \<longrightarrow>
      validateShot cfg w shot skipRegen =
        \<lparr>result = \<lparr>status = No_image, message = Some ''No image.png found in shot folder'',
                    validation = None\<rparr>,
         after = shot, events = []\<rparr>) \<and>
   (\<forall>run ex. validateExercise cfg w name skipRegen = Inr run \<longrightarrow>
      find (\<lambda>e. ex_name e = name) (or_empty (video_scripts w)) = Some ex \<longrightarrow>
      (\<exists>s \<in> set (getShotFolders w ex). image_png s = None) \<longrightarrow>
        \<not> ready_for_assembly (summary run) \<and> 0 < no_image (counts (summary run))) \<and>
   (exit_code (run_all w skipRegen exercises) = 0 \<longleftrightarrow>
      (\<forall>name \<in> set exercises. \<exists>run. validateExercise CONFIG w name skipRegen = Inr run \<and>
          flagged (counts (summary run)) = 0 \<and> errors (counts (summary run)) = 0)) \<and>
   ((\<forall>name \<in> set exercises. \<exists>run ex. validateExercise CONFIG w name skipRegen = Inr run \<and>
        find (\<lambda>e. ex_name e = name) (or_empty (video_scripts w)) = Some ex \<and>
        (\<forall>s \<in> set (getShotFolders w ex).
            status (result (validateShot CONFIG w s skipRegen)) \<in> {Approved, No_image})) \<longrightarrow>
      exit_code (run_all w skipRegen exercises) = 0)"
proof -
  have one: "validateShot cfg w shot skipRegen =
        \<lparr>result = \<lparr>status = No_image, message = Some ''No image.png found in shot folder'',
                    validation = None\<rparr>,
         after = shot, events = []\<rparr>" if "image_png shot = None" for cfg w shot skipRegen
    using that by (simp add: validateShot_def)
  have two: "\<not> ready_for_assembly (summary run) \<and> 0 < no_image (counts (summary run))"
    if a: "validateExercise cfg w name skipRegen = Inr run"
      and f: "find (\<lambda>e. ex_name e = name) (or_empty (video_scripts w)) = Some ex"
      and s: "\<exists>s \<in> set (getShotFolders w ex). image_png s = None"
    for run ex
  proof -
    from exercise_buckets [OF a] f have
      cnt: "bucket No_image (counts (summary run)) =
        length (filter (\<lambda>s. status (result (validateShot cfg w s skipRegen)) = No_image)
          (getShotFolders w ex))"
      by auto
    from s obtain s0 where s0: "s0 \<in> set (getShotFolders w ex)" "image_png s0 = None" by blast
    from one [OF s0(2)] have "status (result (validateShot cfg w s0 skipRegen)) = No_image"
      by simp
    with s0(1) have "filter (\<lambda>s. status (result (validateShot cfg w s skipRegen)) = No_image)
          (getShotFolders w ex) \<noteq> []"
      by (auto simp: filter_empty_conv)
    with cnt have pos: "0 < no_image (counts (summary run))" by simp
    from validateExercise_Inr [OF a] obtain n where
      sm: "summary run = generateValidationSummary name (results run) n" by blast
    have "length (no_image (results run)) = no_image (counts (summary run))"
      using summary_counts [of No_image name "results run" n] by (simp add: sm)
    with pos have "\<not> ready_for_assembly (summary run)"
      by (simp add: sm summary_ready)
    with pos show ?thesis by simp
  qed
  have three: "exit_code (run_all w skipRegen exercises) = 0 \<longleftrightarrow>
      (\<forall>name \<in> set exercises. \<exists>run. validateExercise CONFIG w name skipRegen = Inr run \<and>
          flagged (counts (summary run)) = 0 \<and> errors (counts (summary run)) = 0)"
    by (simp add: exit_code_run_all run_exercise_ok)
  have four: "exit_code (run_all w skipRegen exercises) = 0"
    if h: "\<forall>name \<in> set exercises. \<exists>run ex. validateExercise CONFIG w name skipRegen = Inr run \<and>
        find (\<lambda>e. ex_name e = name) (or_empty (video_scripts w)) = Some ex \<and>
        (\<forall>s \<in> set (getShotFolders w ex).
            status (result (validateShot CONFIG w s skipRegen)) \<in> {Approved, No_image})"
    unfolding three
  proof
    fix name assume "name \<in> set exercises"
    with h obtain run ex where
      a: "validateExercise CONFIG w name skipRegen = Inr run"
      and f: "find (\<lambda>e. ex_name e = name) (or_empty (video_scripts w)) = Some ex"
      and s: "\<forall>s \<in> set (getShotFolders w ex).
            status (result (validateShot CONFIG w s skipRegen)) \<in> {Approved, No_image}"
      by blast
    from exercise_buckets [OF a] f have
      cnt: "\<And>st. bucket st (counts (summary run)) =
        length (filter (\<lambda>s. status (result (validateShot CONFIG w s skipRegen)) = st)
          (getShotFolders w ex))"
      by auto
    from s have "filter (\<lambda>s. status (result (validateShot CONFIG w s skipRegen)) = Flagged)
          (getShotFolders w ex) = []"
      "filter (\<lambda>s. status (result (validateShot CONFIG w s skipRegen)) = Error)
          (getShotFolders w ex) = []"
      by (auto simp: filter_empty_conv)
    with cnt [of Flagged] cnt [of Error]
    have "flagged (counts (summary run)) = 0" "errors (counts (summary run)) = 0" by simp_all
    with a show "\<exists>run. validateExercise CONFIG w name skipRegen = Inr run \<and>
          flagged (counts (summary run)) = 0 \<and> errors (counts (summary run)) = 0"
      by blast
  qed
  from one two three four show ?thesis by blast
qed

text \<open>
  An exercise with an approved shot and a shot without image: not ready for assembly,
  and the process exits with 0.
\<close>

theorem missing_image_gives_no_image_witness:
  "status (result (validateShot CONFIG curl_world no_image_shot False)) = No_image \<and>
   events (validateShot CONFIG curl_world no_image_shot False) = [] \<and>
   (\<exists>run. validateExercise CONFIG curl_world ''curl'' False = Inr run \<and>
      \<not> ready_for_assembly (summary run) \<and> 0 < no_image (counts (summary run))) \<and>
   exit_code (main curl_world [''curl'']) = 0"
proof -
  note inst = missing_image_gives_no_image
    [of no_image_shot CONFIG curl_world False "''curl''" "[''curl'']"]
  have i: "image_png no_image_shot = None"
    by (simp add: no_image_shot_def demo_shot_def)
  have "\<exists>run. validateExercise CONFIG curl_world ''curl'' False = Inr run"
    by (simp add: batch_defs demo_defs exercise_defs run_defs validate_loop.simps)
  then obtain run where a: "validateExercise CONFIG curl_world ''curl'' False = Inr run" ..
  have f: "find (\<lambda>e. ex_name e = ''curl'') (or_empty (video_scripts curl_world)) = Some curl_exercise"
    by (simp add: batch_defs demo_defs or_empty_def)
  have sf: "getShotFolders curl_world curl_exercise =
      [demo_shot ''01-start'' always_pass edit_ok, no_image_shot]"
    by (simp add: batch_defs demo_defs getShotFolders_def sort_by_def)
  have st: "status (result (validateShot CONFIG curl_world (demo_shot ''01-start'' always_pass edit_ok) False)) = Approved"
    "status (result (validateShot CONFIG curl_world no_image_shot False)) = No_image"
    by (simp_all add: batch_defs demo_defs run_defs validate_loop.simps)
  from inst i have one: "status (result (validateShot CONFIG curl_world no_image_shot False)) = No_image"
    "events (validateShot CONFIG curl_world no_image_shot False) = []"
    by simp_all
  have "\<exists>s \<in> set (getShotFolders curl_world curl_exercise). image_png s = None"
    by (simp add: sf i)
  with inst a f have two: "\<not> ready_for_assembly (summary run) \<and> 0 < no_image (counts (summary run))"
    by blast
  have "\<forall>name \<in> set [''curl'']. \<exists>run ex. validateExercise CONFIG curl_world name False = Inr run \<and>
        find (\<lambda>e. ex_name e = name) (or_empty (video_scripts curl_world)) = Some ex \<and>
        (\<forall>s \<in> set (getShotFolders curl_world ex).
            status (result (validateShot CONFIG curl_world s False)) \<in> {Approved, No_image})"
    using a f by (simp add: sf st)
  with inst have "exit_code (run_all curl_world False [''curl'']) = 0"
    by blast
  with one two a show ?thesis
    unfolding main_curl_world by blast
qed

end
